theory Spec2Isabelle
  imports Main
begin

section \<open>Host objects: JavaScript Map\<close>

text \<open>
  A JavaScript \<open>Map\<close> iterates its entries in insertion order, and \<open>set\<close> on a key
  that is already present keeps the key's position. It is modelled as an association list
  with at most one pair per key, oldest entry first.
\<close>

type_synonym ('k, 'v) jsmap = "('k \<times> 'v) list"

definition jsmap_get :: "('k, 'v) jsmap \<Rightarrow> 'k \<Rightarrow> 'v option" where
  "jsmap_get m k = map_of m k"

definition jsmap_has :: "('k, 'v) jsmap \<Rightarrow> 'k \<Rightarrow> bool" where
  "jsmap_has m k = (map_of m k \<noteq> None)"

fun jsmap_set :: "('k, 'v) jsmap \<Rightarrow> 'k \<Rightarrow> 'v \<Rightarrow> ('k, 'v) jsmap" where
  "jsmap_set [] k v = [(k, v)]"
| "jsmap_set ((k', v') # m) k v =
     (if k' = k then (k, v) # m else (k', v') # jsmap_set m k v)"

definition jsmap_delete :: "('k, 'v) jsmap \<Rightarrow> 'k \<Rightarrow> ('k, 'v) jsmap" where
  "jsmap_delete m k = filter (\<lambda>kv. fst kv \<noteq> k) m"

text \<open>\<open>m.keys().next().value\<close>: the oldest key, \<open>undefined\<close> (None) on an empty Map.\<close>

definition jsmap_first_key :: "('k, 'v) jsmap \<Rightarrow> 'k option" where
  "jsmap_first_key m = (case m of [] \<Rightarrow> None | kv # _ \<Rightarrow> Some (fst kv))"

section \<open>Host functions on strings\<close>

text \<open>
  Strings are modelled as lists of 8-bit characters; the model is exact for ASCII text.
  \<open>toLowerCase\<close> maps \<open>A\<close>..\<open>Z\<close> to \<open>a\<close>..\<open>z\<close>.
\<close>

definition toLowerCase_char :: "char \<Rightarrow> char" where
  "toLowerCase_char ch =
     (let n = (of_char ch :: nat) in if 65 \<le> n \<and> n \<le> 90 then char_of (n + 32) else ch)"

definition toLowerCase :: "string \<Rightarrow> string" where
  "toLowerCase s = map toLowerCase_char s"

text \<open>\<open>s.startsWith(p)\<close> and \<open>s.includes(p)\<close>.\<close>

definition startsWith :: "string \<Rightarrow> string \<Rightarrow> bool" where
  "startsWith s p = (take (length p) s = p)"

fun js_includes :: "string \<Rightarrow> string \<Rightarrow> bool" where
  "js_includes [] p = (p = [])"
| "js_includes (ch # s) p = (startsWith (ch # s) p \<or> js_includes s p)"

text \<open>The order of \<open>Array.prototype.sort()\<close> without a comparator: by code units.\<close>

fun js_less :: "string \<Rightarrow> string \<Rightarrow> bool" where
  "js_less [] [] = False"
| "js_less [] (b # bs) = True"
| "js_less (a # as) [] = False"
| "js_less (a # as) (b # bs) =
     (if (of_char a :: nat) < of_char b then True
      else if (of_char b :: nat) < of_char a then False
      else js_less as bs)"

fun js_insert :: "string \<Rightarrow> string list \<Rightarrow> string list" where
  "js_insert x [] = [x]"
| "js_insert x (y # ys) = (if js_less x y then x # y # ys else y # js_insert x ys)"

definition js_sort :: "string list \<Rightarrow> string list" where
  "js_sort xs = foldr js_insert xs []"

text \<open>\<open>parts.join(sep)\<close>.\<close>

fun join :: "string \<Rightarrow> string list \<Rightarrow> string" where
  "join sep [] = []"
| "join sep [x] = x"
| "join sep (x # y # ys) = x @ sep @ join sep (y # ys)"

text \<open>Decimal text of a number, as \<open>String(n)\<close> and template literals print an integer.\<close>

definition digit_char :: "nat \<Rightarrow> char" where
  "digit_char n = char_of (48 + n)"

fun str_nat :: "nat \<Rightarrow> string" where
  "str_nat n = (if n < 10 then [digit_char n] else str_nat (n div 10) @ [digit_char (n mod 10)])"

definition str_int :: "int \<Rightarrow> string" where
  "str_int i = (if i < 0 then CHR ''-'' # str_nat (nat (- i)) else str_nat (nat i))"

subsection \<open>JSON.stringify\<close>

text \<open>
  \<open>JSON.stringify\<close> on a string: quotes, with \<open>"\<close>, \<open>\\<close> and the control characters
  escaped. An object is represented by the list of its own enumerable properties in
  enumeration order (\<open>Object.entries\<close>).
\<close>

definition hex_digit :: "nat \<Rightarrow> char" where
  "hex_digit n = (if n < 10 then char_of (48 + n) else char_of (87 + n))"

definition json_escape_char :: "char \<Rightarrow> string" where
  "json_escape_char ch =
     (let n = (of_char ch :: nat) in
      if n = 34 then [CHR 0x5C, CHR 0x22]
      else if n = 92 then [CHR 0x5C, CHR 0x5C]
      else if n = 8 then [CHR 0x5C, CHR ''b'']
      else if n = 9 then [CHR 0x5C, CHR ''t'']
      else if n = 10 then [CHR 0x5C, CHR ''n'']
      else if n = 12 then [CHR 0x5C, CHR ''f'']
      else if n = 13 then [CHR 0x5C, CHR ''r'']
      else if n < 32 then [CHR 0x5C, CHR ''u'', CHR ''0'', CHR ''0'', hex_digit (n div 16), hex_digit (n mod 16)]
      else [ch])"

definition json_string :: "string \<Rightarrow> string" where
  "json_string s = CHR 0x22 # concat (map json_escape_char s) @ [CHR 0x22]"

text \<open>The scalar values a query parameter can hold.\<close>

datatype scalar = SStr string | SNum int | SBool bool | SNull | SUndefined

text \<open>The JSON text of a property value; a property holding \<open>undefined\<close> is left out.\<close>

fun json_scalar :: "scalar \<Rightarrow> string option" where
  "json_scalar (SStr s) = Some (json_string s)"
| "json_scalar (SNum n) = Some (str_int n)"
| "json_scalar (SBool b) = Some (if b then ''true'' else ''false'')"
| "json_scalar SNull = Some ''null''"
| "json_scalar SUndefined = None"

definition json_member :: "string \<times> scalar \<Rightarrow> string option" where
  "json_member kv = map_option (\<lambda>t. json_string (fst kv) @ CHR '':'' # t) (json_scalar (snd kv))"

definition JSON_stringify :: "(string \<times> scalar) list \<Rightarrow> string" where
  "JSON_stringify obj = CHR ''{'' # join '','' (List.map_filter json_member obj) @ ''}''"

type_synonym params = "(string \<times> scalar) list"

section \<open>Response descriptors and cache entries\<close>

text \<open>
  The object that \<open>buildResponse\<close> returns. \<open>res_data = None\<close> is \<open>data: null\<close>;
  \<open>res_etag = None\<close> is an absent or null \<open>etag\<close>; \<open>res_fromCache = False\<close> is an
  absent \<open>fromCache\<close> property (the code only ever writes \<open>true\<close> there).
  Header bags are lists of (name, value) pairs in insertion order.
\<close>

type_synonym header_list = "(string \<times> string) list"

record 'd response =
  res_ok :: bool
  res_status :: int
  res_statusText :: string
  res_headers :: header_list
  res_url :: string
  res_data :: "'d option"
  res_etag :: "string option"
  res_fromCache :: bool

record 'd cache_entry =
  entry_data :: "'d response"
  expires :: int
  entry_etag :: "string option"

type_synonym promise = nat

section \<open>HttpCache\<close>

text \<open>
  The fields of \<open>class HttpCache\<close>. Times are milliseconds as returned by \<open>Date.now()\<close>,
  which every operation below takes as its argument \<open>now\<close>.
\<close>

record 'd HttpCache =
  cache :: "(string, 'd cache_entry) jsmap"
  ttl :: int
  maxSize :: int
  authHeaders :: "string list"
  pending :: "(string, promise) jsmap"
  etags :: "(string, string) jsmap"
  authCache :: "(string, string) jsmap"
  cleanupScheduled :: bool

text \<open>\<open>a || b\<close> on an optional number: \<open>null\<close>, \<open>undefined\<close> and \<open>0\<close> are falsy.\<close>

definition num_or :: "int option \<Rightarrow> int \<Rightarrow> int" where
  "num_or a b = (case a of None \<Rightarrow> b | Some n \<Rightarrow> if n = 0 then b else n)"

text \<open>Truthiness of an optional string: \<open>null\<close>, \<open>undefined\<close> and \<open>''\<close> are falsy.\<close>

definition truthy_str :: "string option \<Rightarrow> bool" where
  "truthy_str s = (case s of None \<Rightarrow> False | Some t \<Rightarrow> t \<noteq> [])"

definition AUTH_HEADERS :: "string list" where
  "AUTH_HEADERS = [''authorization'', ''x-api-key'', ''cookie'']"

definition DEFAULT_CACHE_TTL :: int where
  "DEFAULT_CACHE_TTL = 5 * 60 * 1000"

text \<open>The constructor, on the options \<open>ttl\<close>, \<open>maxSize\<close> and \<open>authHeaders\<close> (absent: \<open>None\<close>).\<close>

definition HttpCache_new :: "int option \<Rightarrow> int option \<Rightarrow> string list option \<Rightarrow> 'd HttpCache" where
  "HttpCache_new optTtl optMaxSize optAuthHeaders =
     \<lparr>cache = [], ttl = num_or optTtl DEFAULT_CACHE_TTL, maxSize = num_or optMaxSize 100,
      authHeaders = (case optAuthHeaders of None \<Rightarrow> AUTH_HEADERS | Some names \<Rightarrow> names),
      pending = [], etags = [], authCache = [], cleanupScheduled = False\<rparr>"

text \<open>\<open>_scheduleCleanup\<close>: the flag is set; the timer's callback is \<open>HttpCache_cleanup_timer\<close>.\<close>

definition HttpCache_scheduleCleanup :: "'d HttpCache \<Rightarrow> 'd HttpCache" where
  "HttpCache_scheduleCleanup c = (if cleanupScheduled c then c else c\<lparr>cleanupScheduled := True\<rparr>)"

definition HttpCache_cleanup :: "'d HttpCache \<Rightarrow> int \<Rightarrow> 'd HttpCache" where
  "HttpCache_cleanup c now =
     (let dead = map fst (filter (\<lambda>kv. expires (snd kv) \<le> now) (cache c))
      in c\<lparr>cache := filter (\<lambda>kv. fst kv \<notin> set dead) (cache c),
            etags := filter (\<lambda>kv. fst kv \<notin> set dead) (etags c)\<rparr>)"

definition HttpCache_cleanup_timer :: "'d HttpCache \<Rightarrow> int \<Rightarrow> 'd HttpCache" where
  "HttpCache_cleanup_timer c now = HttpCache_cleanup (c\<lparr>cleanupScheduled := False\<rparr>) now"

definition HttpCache_getPending :: "'d HttpCache \<Rightarrow> string \<Rightarrow> promise option" where
  "HttpCache_getPending c k = jsmap_get (pending c) k"

text \<open>
  \<open>track\<close> registers the promise; the \<open>finally\<close> callback it installs runs when the promise
  settles and is the separate event \<open>HttpCache_track_finally\<close>.
\<close>

definition HttpCache_track :: "'d HttpCache \<Rightarrow> string \<Rightarrow> promise \<Rightarrow> 'd HttpCache" where
  "HttpCache_track c k p = c\<lparr>pending := jsmap_set (pending c) k p\<rparr>"

definition HttpCache_track_finally :: "'d HttpCache \<Rightarrow> string \<Rightarrow> 'd HttpCache" where
  "HttpCache_track_finally c k = c\<lparr>pending := jsmap_delete (pending c) k\<rparr>"

definition HttpCache_set ::
  "'d HttpCache \<Rightarrow> int \<Rightarrow> string \<Rightarrow> 'd response \<Rightarrow> int option \<Rightarrow> string option \<Rightarrow> 'd HttpCache" where
  "HttpCache_set c now k v customTtl etg =
     (let c1 = (if maxSize c \<le> int (length (cache c)) \<and> \<not> jsmap_has (cache c) k
                then (case jsmap_first_key (cache c) of
                        None \<Rightarrow> c
                      | Some oldestKey \<Rightarrow>
                          c\<lparr>cache := jsmap_delete (cache c) oldestKey,
                            etags := jsmap_delete (etags c) oldestKey\<rparr>)
                else c);
          entry = \<lparr>entry_data = v, expires = now + num_or customTtl (ttl c), entry_etag = etg\<rparr>;
          c2 = c1\<lparr>cache := jsmap_set (cache c1) k entry\<rparr>;
          c3 = (case etg of
                  None \<Rightarrow> c2
                | Some t \<Rightarrow> if t \<noteq> [] then c2\<lparr>etags := jsmap_set (etags c2) k t\<rparr> else c2)
      in HttpCache_scheduleCleanup c3)"

definition HttpCache_get ::
  "'d HttpCache \<Rightarrow> int \<Rightarrow> string \<Rightarrow> 'd response option \<times> 'd HttpCache" where
  "HttpCache_get c now k =
     (case jsmap_get (cache c) k of
        None \<Rightarrow> (None, c)
      | Some entry \<Rightarrow>
          if expires entry < now
          then (None, c\<lparr>cache := jsmap_delete (cache c) k, etags := jsmap_delete (etags c) k\<rparr>)
          else (Some ((entry_data entry)\<lparr>res_fromCache := True\<rparr>),
                c\<lparr>cache := jsmap_set (jsmap_delete (cache c) k) k entry\<rparr>))"

definition HttpCache_etag :: "'d HttpCache \<Rightarrow> string \<Rightarrow> string option" where
  "HttpCache_etag c k = jsmap_get (etags c) k"

definition HttpCache_refresh :: "'d HttpCache \<Rightarrow> int \<Rightarrow> string \<Rightarrow> 'd HttpCache" where
  "HttpCache_refresh c now k =
     (case jsmap_get (cache c) k of
        None \<Rightarrow> c
      | Some entry \<Rightarrow> c\<lparr>cache := jsmap_set (cache c) k (entry\<lparr>expires := now + ttl c\<rparr>)\<rparr>)"

definition HttpCache_clear :: "'d HttpCache \<Rightarrow> 'd HttpCache" where
  "HttpCache_clear c = c\<lparr>cache := [], pending := [], etags := [], authCache := []\<rparr>"

subsection \<open>Cache fingerprints\<close>

definition CACHE_SEP :: string where
  "CACHE_SEP = [CHR 0x00]"

text \<open>\<open>findHeader\<close>: the value of the first header whose name matches, ignoring case.\<close>

fun findHeader :: "header_list \<Rightarrow> string \<Rightarrow> string option" where
  "findHeader [] name = None"
| "findHeader ((k, v) # hs) name =
     (if toLowerCase k = toLowerCase name then Some v else findHeader hs name)"

text \<open>The object \<open>authHeaders\<close> built by the \<open>forEach\<close> of \<open>key\<close> (lines 64-68).\<close>

definition extract_auth :: "string list \<Rightarrow> header_list \<Rightarrow> (string \<times> scalar) list" where
  "extract_auth names hs =
     foldl (\<lambda>obj name. case findHeader hs name of
                          None \<Rightarrow> obj
                        | Some v \<Rightarrow> if v \<noteq> [] then jsmap_set obj name (SStr v) else obj)
           [] names"

text \<open>
  \<open>key(method, url, params = {}, headers = {})\<close>. An omitted argument is \<open>None\<close>.
  The method reads and writes the memo \<open>_authCache\<close>, so it returns the cache as well.
\<close>

definition HttpCache_key ::
  "'d HttpCache \<Rightarrow> string \<Rightarrow> string \<Rightarrow> params option \<Rightarrow> header_list option
     \<Rightarrow> string \<times> 'd HttpCache" where
  "HttpCache_key c method url params hdrs =
     (let ps = (case params of None \<Rightarrow> [] | Some p \<Rightarrow> p);
          hs = (case hdrs of None \<Rightarrow> [] | Some h \<Rightarrow> h);
          paramStr = (if ps \<noteq> [] then JSON_stringify ps else []);
          headerKeys = join '','' (js_sort (map fst hs))
      in case jsmap_get (authCache c) headerKeys of
           Some authStr \<Rightarrow> (join CACHE_SEP [method, url, paramStr, authStr], c)
         | None \<Rightarrow>
             (let authObj = extract_auth (authHeaders c) hs;
                  authStr = (if authObj \<noteq> [] then JSON_stringify authObj else []);
                  memo = (if 100 < length (authCache c)
                          then (case jsmap_first_key (authCache c) of
                                  None \<Rightarrow> authCache c
                                | Some firstKey \<Rightarrow> jsmap_delete (authCache c) firstKey)
                          else authCache c)
              in (join CACHE_SEP [method, url, paramStr, authStr],
                  c\<lparr>authCache := jsmap_set memo headerKeys authStr\<rparr>)))"

section \<open>Values that can be thrown\<close>

text \<open>
  The response handle of the transport: the fields the client reads, and for each body
  reader what its promise settles to (\<open>Inl (name, message)\<close> is a rejection with an error
  of that name and message). \<open>raw_body\<close> is the \<open>body\<close> property.
\<close>

type_synonym 'd settled = "(string \<times> string) + 'd"

record 'd raw_response =
  raw_ok :: bool
  raw_status :: int
  raw_statusText :: string
  raw_headers :: header_list
  raw_url :: string
  raw_json :: "'d settled"
  raw_text :: "'d settled"
  raw_blob :: "'d settled"
  raw_arrayBuffer :: "'d settled"
  raw_body :: "'d option"

text \<open>
  The three error classes of the client with their constructor arguments, any other error
  object by its \<open>name\<close> and \<open>message\<close>, the value \<open>undefined\<close>, and any other value by a label.
\<close>

datatype 'd thrown =
    HttpError string int string "'d raw_response"
  | NetworkError string string
  | TimeoutError string int
  | JsError string string
  | Undefined
  | OtherValue string

text \<open>What an \<open>await\<close> yields: \<open>Inl\<close> a thrown value, \<open>Inr\<close> a result.\<close>

type_synonym ('d, 'v) outcome = "'d thrown + 'v"

section \<open>CircuitBreaker\<close>

datatype circuit_state = CIRCUIT_CLOSED | CIRCUIT_OPEN | CIRCUIT_HALF_OPEN

text \<open>
  The own properties of a \<open>CircuitBreaker\<close> instance. The constructor executes
  \<open>this.fallback = options.fallback\<close>, so every instance has an own property \<open>fallback\<close>:
  it holds the configured function, given here by what a call of it yields, or a value that
  is not a function (\<open>undefined\<close>, or the \<open>null\<close> that \<open>normalizeCircuitBreaker\<close> supplies),
  which is \<open>None\<close>. \<open>lastFailureTime = None\<close> is \<open>null\<close>.
\<close>

record ('d, 'v) CircuitBreaker =
  failureThreshold :: int
  resetTimeout :: int
  fallback :: "('d, 'v) outcome option"
  state :: circuit_state
  failureCount :: int
  lastFailureTime :: "int option"
  successCount :: int
  halfOpenRequestSent :: bool

definition CircuitBreaker_new ::
  "int option \<Rightarrow> int option \<Rightarrow> ('d, 'v) outcome option \<Rightarrow> ('d, 'v) CircuitBreaker" where
  "CircuitBreaker_new optThreshold optReset optFallback =
     \<lparr>failureThreshold = num_or optThreshold 5, resetTimeout = num_or optReset 60000,
      fallback = optFallback, state = CIRCUIT_CLOSED, failureCount = 0,
      lastFailureTime = None, successCount = 0, halfOpenRequestSent = False\<rparr>"

text \<open>\<open>normalizeCircuitBreaker\<close> on numeric options (an absent option is \<open>None\<close>).\<close>

definition normalizeCircuitBreaker ::
  "int option \<Rightarrow> int option \<Rightarrow> ('d, 'v) outcome option
     \<Rightarrow> int option \<times> int option \<times> ('d, 'v) outcome option" where
  "normalizeCircuitBreaker optThreshold optReset optFallback =
     (Some (max 1 (min 100 (num_or optThreshold 5))),
      Some (max 1000 (min 3600000 (num_or optReset 60000))),
      optFallback)"

text \<open>\<open>Date.now() - this.lastFailureTime > this.resetTimeout\<close>; \<open>null\<close> counts as 0.\<close>

definition CircuitBreaker_shouldReset :: "('d, 'v) CircuitBreaker \<Rightarrow> int \<Rightarrow> bool" where
  "CircuitBreaker_shouldReset cb now =
     (resetTimeout cb < now - (case lastFailureTime cb of None \<Rightarrow> 0 | Some t \<Rightarrow> t))"

text \<open>
  The method \<open>fallback()\<close> that the class body declares (lines 258-263). It lives on the
  prototype.
\<close>

definition service_unavailable :: "'d thrown" where
  "service_unavailable =
     JsError ''Error'' ''Circuit breaker is OPEN - service temporarily unavailable''"

definition CircuitBreaker_fallback_method :: "('d, 'v) CircuitBreaker \<Rightarrow> ('d, 'v) outcome" where
  "CircuitBreaker_fallback_method cb =
     (case fallback cb of Some result \<Rightarrow> result | None \<Rightarrow> Inl service_unavailable)"

text \<open>
  The expression \<open>this.fallback()\<close> inside \<open>call\<close>. Property lookup finds the instance's own
  property before the prototype's method, so the call invokes the value stored by the
  constructor; calling a value that is not a function throws a \<open>TypeError\<close>.
\<close>

definition this_fallback :: "('d, 'v) CircuitBreaker \<Rightarrow> ('d, 'v) outcome" where
  "this_fallback cb =
     (case fallback cb of
        Some result \<Rightarrow> result
      | None \<Rightarrow> Inl (JsError ''TypeError'' ''this.fallback is not a function''))"

definition CircuitBreaker_onSuccess :: "('d, 'v) CircuitBreaker \<Rightarrow> ('d, 'v) CircuitBreaker" where
  "CircuitBreaker_onSuccess cb =
     (let cb1 = cb\<lparr>failureCount := 0, successCount := successCount cb + 1\<rparr>
      in if state cb1 = CIRCUIT_HALF_OPEN
         then cb1\<lparr>state := CIRCUIT_CLOSED, halfOpenRequestSent := False\<rparr>
         else cb1)"

definition CircuitBreaker_onFailure ::
  "('d, 'v) CircuitBreaker \<Rightarrow> int \<Rightarrow> ('d, 'v) CircuitBreaker" where
  "CircuitBreaker_onFailure cb now =
     (let cb1 = cb\<lparr>failureCount := failureCount cb + 1, lastFailureTime := Some now\<rparr>
      in if failureThreshold cb1 \<le> failureCount cb1 then cb1\<lparr>state := CIRCUIT_OPEN\<rparr> else cb1)"

text \<open>
  \<open>call(fn)\<close> is an async function with one \<open>await\<close>. Its body runs in two uninterrupted
  pieces: \<open>CircuitBreaker_enter\<close> is the part up to \<open>await fn()\<close> (lines 210-224 and the
  invocation of \<open>fn\<close>), and \<open>CircuitBreaker_settle\<close> is the part that runs once the promise of
  \<open>fn\<close> has settled (lines 228-233). \<open>Rejected r\<close>: \<open>call\<close> returned \<open>this.fallback()\<close> and never
  invoked \<open>fn\<close>; \<open>Admitted\<close>: \<open>fn\<close> was invoked.
\<close>

datatype ('d, 'v) admission = Admitted | Rejected "('d, 'v) outcome"

definition CircuitBreaker_enter ::
  "('d, 'v) CircuitBreaker \<Rightarrow> int \<Rightarrow> ('d, 'v) admission \<times> ('d, 'v) CircuitBreaker" where
  "CircuitBreaker_enter cb now =
     (if state cb = CIRCUIT_OPEN \<and> \<not> CircuitBreaker_shouldReset cb now
      then (Rejected (this_fallback cb), cb)
      else
        (let cb1 = (if state cb = CIRCUIT_OPEN
                    then cb\<lparr>state := CIRCUIT_HALF_OPEN, halfOpenRequestSent := False\<rparr>
                    else cb)
         in if state cb1 = CIRCUIT_HALF_OPEN
            then (if halfOpenRequestSent cb1
                  then (Rejected (this_fallback cb1), cb1)
                  else (Admitted, cb1\<lparr>halfOpenRequestSent := True\<rparr>))
            else (Admitted, cb1)))"

definition CircuitBreaker_settle ::
  "('d, 'v) CircuitBreaker \<Rightarrow> int \<Rightarrow> ('d, 'v) outcome
     \<Rightarrow> ('d, 'v) outcome \<times> ('d, 'v) CircuitBreaker" where
  "CircuitBreaker_settle cb now result =
     (case result of
        Inr v \<Rightarrow> (Inr v, CircuitBreaker_onSuccess cb)
      | Inl error \<Rightarrow> (Inl error, CircuitBreaker_onFailure cb now))"

text \<open>
  A call that nothing interleaves with: it arrives at \<open>now\<close>, and if it is admitted its
  thunk settles to \<open>result\<close> at \<open>now'\<close>.
\<close>

definition CircuitBreaker_call ::
  "('d, 'v) CircuitBreaker \<Rightarrow> int \<Rightarrow> ('d, 'v) outcome \<Rightarrow> int
     \<Rightarrow> ('d, 'v) outcome \<times> ('d, 'v) CircuitBreaker" where
  "CircuitBreaker_call cb now result now' =
     (case CircuitBreaker_enter cb now of
        (Rejected r, cb1) \<Rightarrow> (r, cb1)
      | (Admitted, cb1) \<Rightarrow> CircuitBreaker_settle cb1 now' result)"

definition CircuitBreaker_reset :: "('d, 'v) CircuitBreaker \<Rightarrow> ('d, 'v) CircuitBreaker" where
  "CircuitBreaker_reset cb =
     cb\<lparr>state := CIRCUIT_CLOSED, failureCount := 0, successCount := 0,
        lastFailureTime := None, halfOpenRequestSent := False\<rparr>"

text \<open>
  Calls on one breaker overlap whenever the client has several requests in flight. A
  history of the breaker is a list of events: a call arrives, or the thunk of an admitted
  call settles. \<open>run_events\<close> replays a history, counting the thunks in flight; a history in
  which a thunk settles while none is in flight is not a history of the code (\<open>None\<close>).
\<close>

datatype breaker_event = CallArrives int | ThunkSucceeds int | ThunkFails int

fun run_events ::
  "('d, unit) CircuitBreaker \<times> nat \<Rightarrow> breaker_event list \<Rightarrow> (('d, unit) CircuitBreaker \<times> nat) option" where
  "run_events (cb, inflight) [] = Some (cb, inflight)"
| "run_events (cb, inflight) (CallArrives now # es) =
     (case CircuitBreaker_enter cb now of
        (Admitted, cb1) \<Rightarrow> run_events (cb1, Suc inflight) es
      | (Rejected r, cb1) \<Rightarrow> run_events (cb1, inflight) es)"
| "run_events (cb, inflight) (ThunkSucceeds now # es) =
     (case inflight of
        0 \<Rightarrow> None
      | Suc n \<Rightarrow> run_events (snd (CircuitBreaker_settle cb now (Inr ())), n) es)"
| "run_events (cb, inflight) (ThunkFails now # es) =
     (case inflight of
        0 \<Rightarrow> None
      | Suc n \<Rightarrow> run_events (snd (CircuitBreaker_settle cb now (Inl Undefined)), n) es)"

text \<open>
  Calls that do not overlap and whose thunks all fail: the call at each of the given times
  is settled before the next one arrives.
\<close>

fun failing_calls :: "('d, 'v) CircuitBreaker \<Rightarrow> int list \<Rightarrow> ('d, 'v) CircuitBreaker" where
  "failing_calls cb [] = cb"
| "failing_calls cb (t # ts) = failing_calls (snd (CircuitBreaker_call cb t (Inl Undefined) t)) ts"

section \<open>Grab: errors, interceptors and request building\<close>

definition MAX_BACKOFF :: int where
  "MAX_BACKOFF = 30000"

text \<open>The \<open>name\<close> and \<open>message\<close> properties of a thrown value, where it has them.\<close>

definition TimeoutError_message :: "string \<Rightarrow> int \<Rightarrow> string" where
  "TimeoutError_message url ms = ''Request timeout after '' @ str_int ms @ ''ms: '' @ url"

fun error_name :: "'d thrown \<Rightarrow> string option" where
  "error_name (HttpError m st u r) = Some ''HttpError''"
| "error_name (NetworkError m u) = Some ''NetworkError''"
| "error_name (TimeoutError u t) = Some ''TimeoutError''"
| "error_name (JsError n m) = Some n"
| "error_name Undefined = None"
| "error_name (OtherValue l) = None"

fun error_message :: "'d thrown \<Rightarrow> string" where
  "error_message (HttpError m st u r) = m"
| "error_message (NetworkError m u) = m"
| "error_message (TimeoutError u t) = TimeoutError_message u t"
| "error_message (JsError n m) = m"
| "error_message Undefined = []"
| "error_message (OtherValue l) = []"

fun defaultRetryCondition :: "'d thrown \<Rightarrow> bool" where
  "defaultRetryCondition (NetworkError m u) = True"
| "defaultRetryCondition (TimeoutError u t) = True"
| "defaultRetryCondition (HttpError m st u r) = (500 \<le> st \<or> st = 408 \<or> st = 429)"
| "defaultRetryCondition (JsError n m) = False"
| "defaultRetryCondition Undefined = False"
| "defaultRetryCondition (OtherValue l) = False"

text \<open>
  An error interceptor is a function of the current error; a call of it either returns a
  value (\<open>Returns Undefined\<close> when it returns nothing) or throws one. For an async
  interceptor these are the two ways its promise settles.
\<close>

datatype 'd intercepted = Returns "'d thrown" | Throws "'d thrown"

fun callErrorInterceptors :: "('d thrown \<Rightarrow> 'd intercepted) list \<Rightarrow> 'd thrown \<Rightarrow> 'd thrown" where
  "callErrorInterceptors [] current = current"
| "callErrorInterceptors (fn # fns) current =
     callErrorInterceptors fns
       (case fn current of
          Returns result \<Rightarrow> if result \<noteq> Undefined then result else current
        | Throws err \<Rightarrow> err)"

subsection \<open>Numbers in header values\<close>

definition is_digit :: "char \<Rightarrow> bool" where
  "is_digit ch = (48 \<le> (of_char ch :: nat) \<and> (of_char ch :: nat) \<le> 57)"

definition digits_value :: "string \<Rightarrow> int" where
  "digits_value s = foldl (\<lambda>acc ch. 10 * acc + (int (of_char ch) - 48)) 0 s"

definition is_space :: "char \<Rightarrow> bool" where
  "is_space ch = ((of_char ch :: nat) \<in> {9, 10, 11, 12, 13, 32})"

text \<open>
  \<open>parseInt(val, 10)\<close> on a string: leading white space, an optional sign, then the longest
  run of decimal digits; \<open>NaN\<close> (None) if there is no digit.
\<close>

definition parseInt10 :: "string \<Rightarrow> int option" where
  "parseInt10 s =
     (let t = dropWhile is_space s;
          neg = (t \<noteq> [] \<and> hd t = CHR ''-'');
          u = (if t \<noteq> [] \<and> (hd t = CHR ''-'' \<or> hd t = CHR ''+'') then tl t else t);
          ds = takeWhile is_digit u
      in if ds = [] then None else Some (if neg then - digits_value ds else digits_value ds))"

definition toInt :: "string \<Rightarrow> int \<Rightarrow> int" where
  "toInt val dflt = (case parseInt10 val of None \<Rightarrow> dflt | Some n \<Rightarrow> n)"

text \<open>
  The unary plus of \<open>+contentLength\<close>, modelled on strings of decimal digits, which is what
  a Content-Length header holds; any other text counts as \<open>NaN\<close> (None), for which every
  comparison is false.
\<close>

definition to_number :: "string \<Rightarrow> int option" where
  "to_number s = (if s \<noteq> [] \<and> list_all is_digit s then Some (digits_value s) else None)"

text \<open>\<open>headers.get(name)\<close> on a header bag: names are matched ignoring case.\<close>

definition Headers_get :: "header_list \<Rightarrow> string \<Rightarrow> string option" where
  "Headers_get hs name = findHeader hs name"

subsection \<open>URLs\<close>

text \<open>
  \<open>URLSearchParams.toString()\<close>: the form-urlencoded serializer keeps ASCII letters, digits
  and \<open>* - . _\<close>, writes a space as \<open>+\<close> and any other byte as \<open>%XX\<close>.
\<close>

definition hex_upper :: "nat \<Rightarrow> char" where
  "hex_upper n = (if n < 10 then char_of (48 + n) else char_of (55 + n))"

definition form_encode_char :: "char \<Rightarrow> string" where
  "form_encode_char ch =
     (let n = (of_char ch :: nat) in
      if (48 \<le> n \<and> n \<le> 57) \<or> (65 \<le> n \<and> n \<le> 90) \<or> (97 \<le> n \<and> n \<le> 122)
         \<or> n = 42 \<or> n = 45 \<or> n = 46 \<or> n = 95
      then [ch]
      else if n = 32 then ''+''
      else [CHR ''%'', hex_upper (n div 16), hex_upper (n mod 16)])"

definition form_encode :: "string \<Rightarrow> string" where
  "form_encode s = concat (map form_encode_char s)"

text \<open>\<open>String(value)\<close> for a parameter that is neither null nor undefined.\<close>

fun param_text :: "scalar \<Rightarrow> string option" where
  "param_text (SStr s) = Some s"
| "param_text (SNum n) = Some (str_int n)"
| "param_text (SBool b) = Some (if b then ''true'' else ''false'')"
| "param_text SNull = None"
| "param_text SUndefined = None"

definition search_pair :: "string \<times> scalar \<Rightarrow> string option" where
  "search_pair kv = map_option (\<lambda>t. form_encode (fst kv) @ ''='' @ form_encode t) (param_text (snd kv))"

definition buildUrl :: "string \<Rightarrow> params option \<Rightarrow> string" where
  "buildUrl url ps =
     (case ps of
        None \<Rightarrow> url
      | Some entries \<Rightarrow>
          if entries = [] then url
          else url @ (if js_includes url ''?'' then ''&'' else ''?'')
                 @ join ''&'' (List.map_filter search_pair entries))"

subsection \<open>Request descriptors and the client\<close>

text \<open>
  Request bodies: a string, an \<open>ArrayBuffer\<close> (by its byte length), a \<open>FormData\<close>, a \<open>File\<close>, a
  \<open>Blob\<close>, or a plain object. A plain object is given by what \<open>JSON.stringify\<close> does with it:
  \<open>Inr\<close> its JSON text, or \<open>Inl (name, message)\<close> for the error it throws.
\<close>

datatype body =
    BodyString string
  | BodyArrayBuffer nat
  | BodyFormData
  | BodyFile
  | BodyBlob
  | BodyObject "(string \<times> string) + string"

text \<open>
  The request descriptor. An absent property is \<open>None\<close>. \<open>cfg_signal\<close> is the caller's
  \<open>AbortSignal\<close>, given by its \<open>aborted\<close> flag at the time the request is executed.
\<close>

record RequestConfig =
  cfg_method :: "string option"
  cfg_url :: string
  cfg_params :: "params option"
  cfg_headers :: "header_list option"
  cfg_body :: "body option"
  cfg_timeout :: "int option"
  cfg_signal :: "bool option"
  cfg_cache :: "bool option"
  cfg_responseType :: "string option"
  cfg_priority :: "string option"

text \<open>
  The options object handed to \<open>fetch\<close>. \<open>opt_signal_aborted\<close> is the state of
  \<open>controller.signal\<close> at the moment of the call.
\<close>

record fetch_options =
  opt_method :: string
  opt_body :: "body option"
  opt_credentials :: string
  opt_headers :: header_list
  opt_priority :: "string option"
  opt_signal_aborted :: bool

datatype retry_delay = DelayFunction "nat \<Rightarrow> int" | DelayNumber int

text \<open>
  The fields of a \<open>Grab\<close> instance that the request pipeline reads. \<open>grab_cache\<close> is
  \<open>this.cache\<close>. The callbacks \<open>retryDelay\<close>, \<open>retryCondition\<close> and the interceptors are
  functions of their argument. \<open>supportsPriority\<close> is the value of the host test
  \<open>supportsPriority()\<close>.
\<close>

record 'd Grab =
  baseUrl :: string
  timeout :: int
  defaultHeaders :: header_list
  grab_cache :: "'d HttpCache"
  retryAttempts :: nat
  retryDelay :: retry_delay
  retryCondition :: "'d thrown \<Rightarrow> bool"
  respectRetryAfter :: bool
  circuitBreaker :: "('d, 'd response) CircuitBreaker"
  errorInterceptors :: "('d thrown \<Rightarrow> 'd intercepted) list"
  maxRequestSize :: int
  maxResponseSize :: int
  supportsPriority :: bool

text \<open>\<open>normalizeRetry\<close>, the field \<open>attempts\<close>, on an integer or absent option.\<close>

definition normalizeRetry_attempts :: "int option \<Rightarrow> nat" where
  "normalizeRetry_attempts a =
     (case a of None \<Rightarrow> 3 | Some n \<Rightarrow> if 0 \<le> n then nat (max 0 (min 10 n)) else 3)"

text \<open>\<open>resolveUrl\<close>; the regular expression \<open>/^https?:\/\//\<close> is the first test.\<close>

definition resolveUrl :: "'d Grab \<Rightarrow> string \<Rightarrow> 'd thrown + string" where
  "resolveUrl g url =
     (if startsWith url ''http://'' \<or> startsWith url ''https://'' then Inr url
      else if startsWith url ''//''
      then Inl (JsError ''Error'' ''Protocol-relative URLs not allowed for security'')
      else Inr (if baseUrl g \<noteq> []
                then baseUrl g @ ''/'' @ (if startsWith url ''/'' then tl url else url)
                else url))"

text \<open>Object spread \<open>{ ...a, ...b }\<close>.\<close>

definition spread :: "header_list \<Rightarrow> header_list \<Rightarrow> header_list" where
  "spread a b = foldl (\<lambda>m kv. jsmap_set m (fst kv) (snd kv)) a b"

definition body_truthy :: "body option \<Rightarrow> bool" where
  "body_truthy b = (case b of None \<Rightarrow> False | Some (BodyString t) \<Rightarrow> t \<noteq> [] | Some _ \<Rightarrow> True)"

text \<open>The \<open>size\<close> computed by \<open>buildFetchOptions\<close>; \<open>JSON.stringify\<close> of a Blob is \<open>{}\<close>.\<close>

fun body_size :: "body \<Rightarrow> 'd thrown + int" where
  "body_size (BodyString t) = Inr (int (length t))"
| "body_size (BodyArrayBuffer n) = Inr (int n)"
| "body_size BodyFormData = Inr 0"
| "body_size BodyFile = Inr 2"
| "body_size BodyBlob = Inr 2"
| "body_size (BodyObject (Inr text)) = Inr (int (length text))"
| "body_size (BodyObject (Inl err)) = Inl (JsError (fst err) (snd err))"

definition check_request_size :: "'d Grab \<Rightarrow> body option \<Rightarrow> 'd thrown option" where
  "check_request_size g b =
     (case b of
        None \<Rightarrow> None
      | Some bd \<Rightarrow>
          if body_truthy b \<and> maxRequestSize g \<noteq> 0
          then (case body_size bd of
                  Inl e \<Rightarrow> Some e
                | Inr sz \<Rightarrow>
                    if maxRequestSize g < sz
                    then Some (JsError ''Error''
                                 (''Request body too large: '' @ str_int sz @ '' bytes (max: ''
                                    @ str_int (maxRequestSize g) @ '')''))
                    else None)
          else None)"

fun serialize_body :: "body option \<Rightarrow> 'd thrown + body option" where
  "serialize_body (Some (BodyObject (Inr text))) = Inr (Some (BodyString text))"
| "serialize_body (Some (BodyObject (Inl err))) =
     Inl (JsError ''Error'' (''Failed to serialize request body: '' @ snd err))"
| "serialize_body b = Inr b"

definition buildFetchOptions :: "'d Grab \<Rightarrow> RequestConfig \<Rightarrow> 'd thrown + fetch_options" where
  "buildFetchOptions g cfg =
     (let hdrs = (case cfg_headers cfg of None \<Rightarrow> [] | Some h \<Rightarrow> h)
      in case check_request_size g (cfg_body cfg) of
           Some e \<Rightarrow> Inl e
         | None \<Rightarrow>
             (case serialize_body (cfg_body cfg) of
                Inl e \<Rightarrow> Inl e
              | Inr finalBody \<Rightarrow>
                  Inr \<lparr>opt_method = (case cfg_method cfg of None \<Rightarrow> ''GET'' | Some m \<Rightarrow> m),
                       opt_body = finalBody,
                       opt_credentials = ''same-origin'',
                       opt_headers =
                         (if finalBody = Some BodyFormData
                          then jsmap_delete (jsmap_delete (spread (defaultHeaders g) hdrs)
                                 ''Content-Type'') ''content-type''
                          else spread (defaultHeaders g) hdrs),
                       opt_priority =
                         (if truthy_str (cfg_priority cfg) \<and> supportsPriority g
                          then cfg_priority cfg else None),
                       opt_signal_aborted = False\<rparr>))"

subsection \<open>Responses\<close>

definition settled_data :: "'d settled \<Rightarrow> 'd thrown + 'd option" where
  "settled_data r = (case r of Inl err \<Rightarrow> Inl (JsError (fst err) (snd err)) | Inr d \<Rightarrow> Inr (Some d))"

definition parseResponse :: "'d raw_response \<Rightarrow> string \<Rightarrow> int \<Rightarrow> 'd thrown + 'd option" where
  "parseResponse raw responseType maxSz =
     (let contentType = (case Headers_get (raw_headers raw) ''content-type'' of
                           None \<Rightarrow> [] | Some t \<Rightarrow> t);
          contentLength = Headers_get (raw_headers raw) ''content-length'';
          tooLarge = (case contentLength of
                        None \<Rightarrow> False
                      | Some cl \<Rightarrow> cl \<noteq> [] \<and> maxSz \<noteq> 0 \<and>
                          (case to_number cl of None \<Rightarrow> False | Some n \<Rightarrow> maxSz < n))
      in if tooLarge
         then Inl (JsError ''Error''
                     (''Response too large: '' @ (case contentLength of None \<Rightarrow> [] | Some cl \<Rightarrow> cl)
                        @ '' bytes (max: '' @ str_int maxSz @ '')''))
         else if responseType = ''json''
                 \<or> (responseType = ''auto'' \<and> js_includes contentType ''application/json'')
         then settled_data (raw_json raw)
         else if responseType = ''text'' \<or> (responseType = ''auto'' \<and> startsWith contentType ''text/'')
         then settled_data (raw_text raw)
         else if responseType = ''blob'' then settled_data (raw_blob raw)
         else if responseType = ''arraybuffer'' then settled_data (raw_arrayBuffer raw)
         else if responseType = ''stream'' then Inr (raw_body raw)
         else (case raw_json raw of
                 Inr d \<Rightarrow> Inr (Some d)
               | Inl err \<Rightarrow> settled_data (raw_text raw)))"

definition buildResponse ::
  "'d Grab \<Rightarrow> 'd raw_response \<Rightarrow> string \<Rightarrow> string \<Rightarrow> 'd thrown + 'd response" where
  "buildResponse g raw responseType originalUrl =
     (if raw_status raw = 304
      then Inr \<lparr>res_ok = True, res_status = 304, res_statusText = ''Not Modified'',
                res_headers = raw_headers raw, res_url = raw_url raw, res_data = None,
                res_etag = None, res_fromCache = False\<rparr>
      else if \<not> raw_ok raw
      then Inl (HttpError (''HTTP '' @ str_int (raw_status raw) @ '': '' @ raw_statusText raw)
                  (raw_status raw) originalUrl raw)
      else (case parseResponse raw responseType (maxResponseSize g) of
              Inl e \<Rightarrow> Inl e
            | Inr d \<Rightarrow>
                Inr \<lparr>res_ok = raw_ok raw, res_status = raw_status raw,
                     res_statusText = raw_statusText raw, res_headers = raw_headers raw,
                     res_url = raw_url raw, res_data = d,
                     res_etag = Headers_get (raw_headers raw) ''etag'',
                     res_fromCache = False\<rparr>))"

section \<open>Grab: the request pipeline\<close>

subsection \<open>One transport call\<close>

text \<open>
  The course of one call of the transport (\<open>fetch\<close>). \<open>fetch_settles\<close> is what the promise that
  the transport returns settles to: a response handle, or a rejection \<open>Inl (name, message)\<close>;
  what the body readers of a handle settle to is part of the handle. \<open>timer_fires\<close> tells
  whether the timer of \<open>setupTimeout\<close> fires during the call, and when: while the promise of
  \<open>fetch\<close> is pending (\<open>Fetching\<close>), or after it was fulfilled, while the client awaits a body
  reader (\<open>Decoding\<close>); the timer is cleared only in the \<open>finally\<close> clause. \<open>signal_fires\<close> tells
  the same for an \<open>abort\<close> event of the caller's signal. The transport of a client is a
  function of the number of earlier dispatches, the URL and the options.

  The client does not look at its own controller. It passes \<open>controller.signal\<close> to the
  transport in the options and awaits what the transport and the body readers do, so the
  two flags act on the outcome of \<open>executeHttpRequest\<close> through \<open>fetch_settles\<close> and the body
  readers only. \<open>fetch\<close> rejects with an error named \<open>AbortError\<close> when its signal is or becomes
  aborted, and so does \<open>createSlowMock\<close> of \<open>tests/integration/test-network-errors.js\<close>; the
  transport \<open>createMockFetch\<close> of the interceptor tests never reads \<open>options.signal\<close>. Both
  are transports here: that a transport honours the signal is a hypothesis of the
  statements that need it.
\<close>

datatype phase = Fetching | Decoding

record 'd flight =
  timer_fires :: "phase option"
  signal_fires :: "phase option"
  fetch_settles :: "'d raw_response settled"

type_synonym 'd transport = "nat \<Rightarrow> string \<Rightarrow> fetch_options \<Rightarrow> 'd flight"

text \<open>
  The part of \<open>executeHttpRequest\<close> before the \<open>try\<close> (lines 615-617): final URL, fetch
  options and timeout; \<open>resolveUrl\<close> and \<open>buildFetchOptions\<close> can throw.
\<close>

definition executeHttpRequest_prepare ::
  "'d Grab \<Rightarrow> RequestConfig \<Rightarrow> 'd thrown + (string \<times> fetch_options \<times> int)" where
  "executeHttpRequest_prepare g cfg =
     (case resolveUrl g (cfg_url cfg) of
        Inl e \<Rightarrow> Inl e
      | Inr resolved \<Rightarrow>
          (case buildFetchOptions g cfg of
             Inl e \<Rightarrow> Inl e
           | Inr options \<Rightarrow>
               Inr (buildUrl resolved (cfg_params cfg), options,
                    num_or (cfg_timeout cfg) (timeout g))))"

text \<open>The \<open>catch\<close> clause of \<open>executeHttpRequest\<close> (lines 636-644).\<close>

fun catch_error :: "string \<Rightarrow> int \<Rightarrow> 'd thrown \<Rightarrow> 'd thrown" where
  "catch_error url ms Undefined = JsError ''TypeError'' ''Cannot read properties of undefined''"
| "catch_error url ms (HttpError m st u r) = HttpError m st u r"
| "catch_error url ms e =
     (if error_name e = Some ''AbortError'' then TimeoutError url ms
      else NetworkError (error_message e) url)"


text \<open>\<open>config.responseType || 'auto'\<close> (line 635).\<close>

definition requested_type :: "RequestConfig \<Rightarrow> string" where
  "requested_type cfg =
     (case cfg_responseType cfg of None \<Rightarrow> ''auto'' | Some t \<Rightarrow> if t = [] then ''auto'' else t)"

text \<open>
  \<open>executeHttpRequest\<close>, given the number \<open>n\<close> of dispatches so far; it returns the outcome
  and the new number of dispatches. The transport is called once unless the preparation
  throws. The signal in the options is aborted at the call exactly when the caller's
  signal was aborted at entry. The \<open>try\<close> block awaits the promise of the transport and then
  \<open>buildResponse\<close>; the \<open>catch\<close> clause receives whatever either of them rejects with.
\<close>

definition executeHttpRequest ::
  "'d Grab \<Rightarrow> 'd transport \<Rightarrow> RequestConfig \<Rightarrow> nat \<Rightarrow> ('d, 'd response) outcome \<times> nat" where
  "executeHttpRequest g tr cfg n =
     (case executeHttpRequest_prepare g cfg of
        Inl e \<Rightarrow> (Inl e, n)
      | Inr (url, options, ms) \<Rightarrow>
          (let fl = tr n url (options\<lparr>opt_signal_aborted := (cfg_signal cfg = Some True)\<rparr>);
               built = (case fetch_settles fl of
                          Inl err \<Rightarrow> Inl (JsError (fst err) (snd err))
                        | Inr raw \<Rightarrow> buildResponse g raw (requested_type cfg) url)
           in (case built of
                 Inr response \<Rightarrow> (Inr response, Suc n)
               | Inl error \<Rightarrow> (Inl (catch_error url ms error), Suc n))))"





subsection \<open>The retry loop\<close>

text \<open>The delay that the loop sleeps after a failed attempt (lines 594-605).\<close>

definition retry_wait :: "'d Grab \<Rightarrow> nat \<Rightarrow> 'd thrown \<Rightarrow> int" where
  "retry_wait g attempt error =
     (let delay = (case retryDelay g of DelayFunction f \<Rightarrow> f attempt | DelayNumber d \<Rightarrow> d)
      in case error of
           HttpError m st u r \<Rightarrow>
             if respectRetryAfter g \<and> st = 429
             then (case Headers_get (raw_headers r) ''retry-after'' of
                     None \<Rightarrow> delay
                   | Some retryAfter \<Rightarrow>
                       if retryAfter = [] then delay
                       else (let retryAfterMs = toInt retryAfter 0 * 1000
                             in if 0 < retryAfterMs then min retryAfterMs MAX_BACKOFF else delay))
             else delay
         | _ \<Rightarrow> delay)"

text \<open>
  What the pipeline does to the outside: the number of transport calls made, the sleeps,
  and the number of request promises created (a promise is identified by its number).
\<close>

record world =
  dispatched :: nat
  slept :: "int list"
  promises :: nat

text \<open>
  The \<open>for\<close> loop of \<open>executeWithRetry\<close> from a given value of \<open>attempt\<close>, with the current
  \<open>lastError\<close>; \<open>executeWithRetry\<close> enters it with \<open>attempt = 1\<close> and \<open>lastError\<close> undefined.
\<close>

function executeWithRetry_from ::
  "'d Grab \<Rightarrow> 'd transport \<Rightarrow> RequestConfig \<Rightarrow> nat \<Rightarrow> 'd thrown \<Rightarrow> world
     \<Rightarrow> ('d, 'd response) outcome \<times> world" where
  "executeWithRetry_from g tr cfg attempt lastError w =
     (if attempt \<le> retryAttempts g
      then (case executeHttpRequest g tr cfg (dispatched w) of
              (Inr response, n) \<Rightarrow> (Inr response, w\<lparr>dispatched := n\<rparr>)
            | (Inl error, n) \<Rightarrow>
                if attempt = retryAttempts g \<or> \<not> retryCondition g error
                then (Inl (callErrorInterceptors (errorInterceptors g) error), w\<lparr>dispatched := n\<rparr>)
                else executeWithRetry_from g tr cfg (Suc attempt) error
                       (w\<lparr>dispatched := n, slept := slept w @ [retry_wait g attempt error]\<rparr>))
      else (Inl lastError, w))"
  by pat_completeness auto
termination
  by (relation "measure (\<lambda>(g, tr, cfg, attempt, lastError, w). Suc (retryAttempts g) - attempt)") auto

declare executeWithRetry_from.simps [simp del]

definition executeWithRetry ::
  "'d Grab \<Rightarrow> 'd transport \<Rightarrow> RequestConfig \<Rightarrow> world \<Rightarrow> ('d, 'd response) outcome \<times> world" where
  "executeWithRetry g tr cfg w = executeWithRetry_from g tr cfg 1 Undefined w"

subsection \<open>The cacheable path\<close>

text \<open>
  An async function runs without interruption up to its first \<open>await\<close> that has to wait.
  For \<open>cacheableRequest\<close> this first piece is the whole body: \<open>circuitBreaker.call\<close> runs up to
  its \<open>await fn()\<close>, which calls \<open>executeWithRetry\<close>, which calls \<open>executeHttpRequest\<close>, which
  runs up to \<open>await fetch(url, options)\<close>; control then returns to \<open>cacheableRequest\<close>, which
  attaches the \<open>then\<close> handler, registers the promise with \<open>track\<close> and returns it.
  \<open>cacheableRequest_begin\<close> is this piece. It tells how the call returned:
  \<open>Joined p\<close>, it returned the in-flight promise \<open>p\<close>; \<open>Hit r\<close>, it returned the cached
  descriptor; \<open>Started r\<close>, it created, registered and returned a promise; \<open>Threw e\<close>,
  \<open>resolveUrl\<close> threw.

  A started request \<open>r\<close> holds what the rest of the call works with: the promise, the
  fingerprint \<open>cacheKey\<close>, the descriptor handed to \<open>executeWithRetry\<close> (with the
  \<open>If-None-Match\<close> header when there is an ETag), whether the breaker invoked the thunk, and
  the number of transport calls made before the call.
\<close>

record 'd inflight =
  inf_promise :: promise
  inf_key :: string
  inf_config :: RequestConfig
  inf_admission :: "('d, 'd response) admission"
  inf_first :: nat

datatype 'd begun = Joined promise | Hit "'d response" | Started "'d inflight" | Threw "'d thrown"

definition add_if_none_match :: "RequestConfig \<Rightarrow> string option \<Rightarrow> RequestConfig" where
  "add_if_none_match cfg etg =
     (case etg of
        None \<Rightarrow> cfg
      | Some e \<Rightarrow>
          if e = [] then cfg
          else cfg\<lparr>cfg_headers :=
                     Some (spread (case cfg_headers cfg of None \<Rightarrow> [] | Some h \<Rightarrow> h)
                             [(''If-None-Match'', e)])\<rparr>)"

text \<open>
  In the first piece the transport is called at most once: by the first attempt of the
  retry loop, when the breaker invokes the thunk and the loop is entered
  (\<open>1 <= retryAttempts\<close>). The counter of transport calls after the piece is the one that
  \<open>executeHttpRequest\<close> yields for that attempt.
\<close>

definition cacheableRequest_begin ::
  "'d Grab \<Rightarrow> 'd transport \<Rightarrow> world \<Rightarrow> int \<Rightarrow> RequestConfig \<Rightarrow> 'd begun \<times> 'd Grab \<times> world" where
  "cacheableRequest_begin g tr w now cfg =
     (case resolveUrl g (cfg_url cfg) of
        Inl e \<Rightarrow> (Threw e, g, w)
      | Inr url \<Rightarrow>
          (case HttpCache_key (grab_cache g) ''GET'' url (cfg_params cfg) (cfg_headers cfg) of
             (cacheKey, c1) \<Rightarrow>
               (case HttpCache_getPending c1 cacheKey of
                  Some pendingRequest \<Rightarrow> (Joined pendingRequest, g\<lparr>grab_cache := c1\<rparr>, w)
                | None \<Rightarrow>
                    (case HttpCache_get c1 now cacheKey of
                       (Some cached, c2) \<Rightarrow> (Hit cached, g\<lparr>grab_cache := c2\<rparr>, w)
                     | (None, c2) \<Rightarrow>
                         (let cfg1 = add_if_none_match cfg (HttpCache_etag c2 cacheKey);
                              entered = CircuitBreaker_enter (circuitBreaker g) now;
                              p = promises w
                          in (Started \<lparr>inf_promise = p, inf_key = cacheKey, inf_config = cfg1,
                                       inf_admission = fst entered, inf_first = dispatched w\<rparr>,
                              g\<lparr>grab_cache := HttpCache_track c2 cacheKey p,
                                circuitBreaker := snd entered\<rparr>,
                              w\<lparr>dispatched :=
                                  (if fst entered = Admitted \<and> 1 \<le> retryAttempts g
                                   then snd (executeHttpRequest g tr cfg1 (dispatched w))
                                   else dispatched w),
                                promises := Suc p\<rparr>))))))"

text \<open>Requests that arrive one after the other, each with its arrival time.\<close>

fun cacheableRequests_begin ::
  "'d Grab \<Rightarrow> 'd transport \<Rightarrow> world \<Rightarrow> (int \<times> RequestConfig) list
     \<Rightarrow> 'd begun list \<times> 'd Grab \<times> world" where
  "cacheableRequests_begin g tr w [] = ([], g, w)"
| "cacheableRequests_begin g tr w (arrival # arrivals) =
     (case cacheableRequest_begin g tr w (fst arrival) (snd arrival) of
        (r, g1, w1) \<Rightarrow>
          (case cacheableRequests_begin g1 tr w1 arrivals of
             (rs, g2, w2) \<Rightarrow> (r # rs, g2, w2)))"

text \<open>
  The handler that \<open>cacheableRequest\<close> attaches with \<open>then\<close> (lines 546-559); it runs when
  the promise of \<open>circuitBreaker.call\<close> is fulfilled with \<open>response\<close>.
\<close>

definition cacheableRequest_then ::
  "'d HttpCache \<Rightarrow> int \<Rightarrow> string \<Rightarrow> 'd response \<Rightarrow> 'd response \<times> 'd HttpCache" where
  "cacheableRequest_then c now cacheKey response =
     (case (if res_status response = 304
            then HttpCache_get (HttpCache_refresh c now cacheKey) now cacheKey
            else (None, c)) of
        (Some refreshed, c1) \<Rightarrow> (refreshed, c1)
      | (None, c1) \<Rightarrow>
          if res_ok response
          then (response,
                HttpCache_set c1 now cacheKey response None
                  (Headers_get (res_headers response) ''etag''))
          else (response, c1))"

text \<open>
  What the caller of \<open>cacheableRequest\<close> observes, given how the request promises settle
  (\<open>None\<close>: not settled yet). An async function that returns a promise settles as that
  promise does.
\<close>

definition caller_outcome ::
  "(promise \<Rightarrow> ('d, 'd response) outcome option) \<Rightarrow> 'd begun \<Rightarrow> ('d, 'd response) outcome option" where
  "caller_outcome settles b =
     (case b of
        Joined p \<Rightarrow> settles p
      | Started r \<Rightarrow> settles (inf_promise r)
      | Hit r \<Rightarrow> Some (Inr r)
      | Threw e \<Rightarrow> Some (Inl e))"

text \<open>
  The rest of a started request, on the client and the world as they are when the request
  settles at time \<open>now\<close>. If the breaker did not invoke the thunk, the promise of \<open>call\<close> is
  settled with what \<open>this.fallback()\<close> gave. Otherwise the retry loop runs: it is
  \<open>executeWithRetry\<close> from the transport call number \<open>inf_first\<close>, so that its first transport
  call is the one made in the first piece, and the breaker then records the result (lines
  228-233). A fulfilled promise of \<open>call\<close> goes through the \<open>then\<close> handler, a rejected one
  passes it by; last, the \<open>finally\<close> callback of \<open>track\<close> deletes the in-flight entry.
\<close>

definition cacheableRequest_settle ::
  "'d Grab \<Rightarrow> 'd transport \<Rightarrow> world \<Rightarrow> int \<Rightarrow> 'd inflight
     \<Rightarrow> ('d, 'd response) outcome \<times> 'd Grab \<times> world" where
  "cacheableRequest_settle g tr w now r =
     (case (case inf_admission r of
              Rejected result \<Rightarrow> (result, circuitBreaker g, w)
            | Admitted \<Rightarrow>
                (case executeWithRetry g tr (inf_config r) (w\<lparr>dispatched := inf_first r\<rparr>) of
                   (result, w1) \<Rightarrow>
                     (case CircuitBreaker_settle (circuitBreaker g) now result of
                        (called, cb) \<Rightarrow> (called, cb, w1)))) of
        (Inl error, cb, w1) \<Rightarrow>
          (Inl error,
           g\<lparr>grab_cache := HttpCache_track_finally (grab_cache g) (inf_key r),
             circuitBreaker := cb\<rparr>,
           w1)
      | (Inr response, cb, w1) \<Rightarrow>
          (case cacheableRequest_then (grab_cache g) now (inf_key r) response of
             (returned, c) \<Rightarrow>
               (Inr returned,
                g\<lparr>grab_cache := HttpCache_track_finally c (inf_key r), circuitBreaker := cb\<rparr>,
                w1)))"

text \<open>
  Concurrent requests with one descriptor: the first arrives at \<open>now\<close>, the others at the
  times \<open>ts\<close> while the first is in flight, and the first settles at \<open>finish\<close>. What a call
  that joins does is the same at whatever point of the retry loop of the first it arrives
  (it reads the in-flight entry and the memo of \<open>key\<close> only), so the joining calls are run
  right after the first piece of the first. \<open>co_settles\<close> tells what each promise settled to.
\<close>

record 'd coalesced =
  co_begun :: "'d begun list"
  co_settles :: "promise \<Rightarrow> ('d, 'd response) outcome option"
  co_grab :: "'d Grab"
  co_world :: world

definition coalesced_requests ::
  "'d Grab \<Rightarrow> 'd transport \<Rightarrow> world \<Rightarrow> int \<Rightarrow> RequestConfig \<Rightarrow> int list \<Rightarrow> int
     \<Rightarrow> 'd coalesced" where
  "coalesced_requests g tr w now cfg ts finish =
     (case cacheableRequests_begin g tr w ((now, cfg) # map (\<lambda>t. (t, cfg)) ts) of
        (bs, g1, w1) \<Rightarrow>
          (case bs of
             Started r # joiners \<Rightarrow>
               (case cacheableRequest_settle g1 tr w1 finish r of
                  (result, g2, w2) \<Rightarrow>
                    \<lparr>co_begun = bs,
                     co_settles = (\<lambda>q. if q = inf_promise r then Some result else None),
                     co_grab = g2, co_world = w2\<rparr>)
           | _ \<Rightarrow> \<lparr>co_begun = bs, co_settles = (\<lambda>q. None), co_grab = g1, co_world = w1\<rparr>))"

section \<open>Concrete values used in the worked instances\<close>

definition example_response :: "string response" where
  "example_response =
     \<lparr>res_ok = True, res_status = 200, res_statusText = ''OK'',
      res_headers = [(''content-type'', ''application/json'')],
      res_url = ''https://api.example.com/a'', res_data = Some ''{x:1}'',
      res_etag = None, res_fromCache = False\<rparr>"

definition example_cache :: "string HttpCache" where
  "example_cache = HttpCache_new None None None"

definition example_breaker :: "(string, unit) CircuitBreaker" where
  "example_breaker = CircuitBreaker_new (Some 2) (Some 60000) None"

definition example_grab :: "string Grab" where
  "example_grab =
     \<lparr>baseUrl = ''https://api.example.com'', timeout = 30000,
      defaultHeaders = [(''Content-Type'', ''application/json'')],
      grab_cache = example_cache, retryAttempts = 3, retryDelay = DelayNumber 1000,
      retryCondition = defaultRetryCondition, respectRetryAfter = True,
      circuitBreaker = CircuitBreaker_new (Some 5) (Some 60000) None,
      errorInterceptors = [], maxRequestSize = 10485760, maxResponseSize = 52428800,
      supportsPriority = False\<rparr>"

definition example_config :: RequestConfig where
  "example_config =
     \<lparr>cfg_method = Some ''GET'', cfg_url = ''/b'', cfg_params = None, cfg_headers = None,
      cfg_body = None, cfg_timeout = None, cfg_signal = None, cfg_cache = None,
      cfg_responseType = None, cfg_priority = None\<rparr>"

definition example_world :: world where
  "example_world = \<lparr>dispatched = 0, slept = [], promises = 0\<rparr>"

definition example_raw :: "int \<Rightarrow> string raw_response" where
  "example_raw st =
     \<lparr>raw_ok = (200 \<le> st \<and> st \<le> 299), raw_status = st, raw_statusText = [],
      raw_headers = [(''etag'', ''v1'')], raw_url = ''https://api.example.com/b'',
      raw_json = Inr ''{}'', raw_text = Inr ''{}'', raw_blob = Inr ''{}'',
      raw_arrayBuffer = Inr ''{}'', raw_body = None\<rparr>"

text \<open>
  A transport on which every call fails, and one on which every call answers 200; neither
  reads the signal in the options.
\<close>

definition failing_transport :: "string transport" where
  "failing_transport n url options =
     \<lparr>timer_fires = None, signal_fires = None,
      fetch_settles = Inl (''TypeError'', ''Failed to fetch'')\<rparr>"

definition answering_transport :: "string transport" where
  "answering_transport n url options =
     \<lparr>timer_fires = None, signal_fires = None, fetch_settles = Inr (example_raw 200)\<rparr>"






text \<open>A client whose breaker is open since the time 0.\<close>

definition open_grab :: "string Grab" where
  "open_grab =
     example_grab\<lparr>circuitBreaker :=
       (CircuitBreaker_new (Some 5) (Some 60000) None)
         \<lparr>state := CIRCUIT_OPEN, failureCount := 5, lastFailureTime := Some 0\<rparr>\<rparr>"

text \<open>
  The request that the first call for \<open>example_config\<close> on \<open>example_grab\<close> starts: the
  fingerprint is \<open>GET\<close>, the resolved URL, no parameters and no credentials.
\<close>

definition example_started :: "string inflight" where
  "example_started =
     \<lparr>inf_promise = 0,
      inf_key = join CACHE_SEP [''GET'', ''https://api.example.com/b'', [], []],
      inf_config = example_config, inf_admission = Admitted, inf_first = 0\<rparr>"


text \<open>
  Three error interceptors: the first throws a new error, the second returns nothing, the
  third returns an error that wraps the message of the one it receives.
\<close>

definition example_interceptors :: "(string thrown \<Rightarrow> string intercepted) list" where
  "example_interceptors =
     [\<lambda>e. Throws (JsError ''Error'' ''first''),
      \<lambda>e. Returns Undefined,
      \<lambda>e. Returns (JsError ''Error'' (''wrapped: '' @ error_message e))]"

definition intercepting_grab :: "string Grab" where
  "intercepting_grab = example_grab\<lparr>retryAttempts := 1, errorInterceptors := example_interceptors\<rparr>"


section \<open>Facts about the Map model\<close>

lemma map_of_jsmap_set: "map_of (jsmap_set m k v) = (map_of m)(k \<mapsto> v)"
  by (induction m) (auto simp: fun_eq_iff)

lemma map_of_jsmap_delete: "map_of (jsmap_delete m k) = (map_of m)(k := None)"
  unfolding jsmap_delete_def by (induction m) (auto simp: fun_eq_iff)

lemma jsmap_get_set_same: "jsmap_get (jsmap_set m k v) k = Some v"
  by (simp add: jsmap_get_def map_of_jsmap_set)

lemma jsmap_get_set_other: "k' \<noteq> k \<Longrightarrow> jsmap_get (jsmap_set m k v) k' = jsmap_get m k'"
  by (simp add: jsmap_get_def map_of_jsmap_set)

lemma jsmap_get_delete_same: "jsmap_get (jsmap_delete m k) k = None"
  by (simp add: jsmap_get_def map_of_jsmap_delete)

lemma jsmap_get_delete_other: "k' \<noteq> k \<Longrightarrow> jsmap_get (jsmap_delete m k) k' = jsmap_get m k'"
  by (simp add: jsmap_get_def map_of_jsmap_delete)

lemma example_cache_fields:
  "cache example_cache = []" "ttl example_cache = 300000" "maxSize example_cache = 100"
  "pending example_cache = []" "etags example_cache = []" "authCache example_cache = []"
  "authHeaders example_cache = [''authorization'', ''x-api-key'', ''cookie'']"
  by (simp_all add: example_cache_def HttpCache_new_def num_or_def DEFAULT_CACHE_TTL_def
      AUTH_HEADERS_def)

section \<open>Cache: set followed by get\<close>

lemma HttpCache_set_entry:
  "jsmap_get (cache (HttpCache_set c now k v customTtl etg)) k =
     Some \<lparr>entry_data = v, expires = now + num_or customTtl (ttl c), entry_etag = etg\<rparr>"
  by (simp add: HttpCache_set_def HttpCache_scheduleCleanup_def Let_def jsmap_get_set_same
      split: option.splits)

text \<open>
  Claim C5. After \<open>set(key, v)\<close> at time \<open>now\<close> the recorded expiry is
  \<open>now + (customTtl || ttl)\<close>. A \<open>get(key)\<close> at a time \<open>now'\<close> that is not past that expiry
  returns a copy of \<open>v\<close> with \<open>fromCache = true\<close> (so its data is \<open>v.data\<close>); a \<open>get(key)\<close>
  at a time past the expiry returns null and leaves neither a cache entry nor an ETag for
  the key. In any state of the cache, \<open>get\<close> only returns an entry whose expiry is not
  before the current time.
\<close>

theorem HttpCache_set_get:
  "(now' \<le> now + num_or customTtl (ttl c) \<longrightarrow>
      fst (HttpCache_get (HttpCache_set c now k v customTtl etg) now' k)
        = Some (v\<lparr>res_fromCache := True\<rparr>) \<and>
      map_option res_data (fst (HttpCache_get (HttpCache_set c now k v customTtl etg) now' k))
        = Some (res_data v) \<and>
      map_option res_fromCache (fst (HttpCache_get (HttpCache_set c now k v customTtl etg) now' k))
        = Some True) \<and>
   (now + num_or customTtl (ttl c) < now' \<longrightarrow>
      fst (HttpCache_get (HttpCache_set c now k v customTtl etg) now' k) = None \<and>
      jsmap_get (cache (snd (HttpCache_get (HttpCache_set c now k v customTtl etg) now' k))) k = None \<and>
      jsmap_get (etags (snd (HttpCache_get (HttpCache_set c now k v customTtl etg) now' k))) k = None) \<and>
   (fst (HttpCache_get c' t k') = Some d \<longrightarrow>
      (\<exists>entry. jsmap_get (cache c') k' = Some entry \<and> t \<le> expires entry
               \<and> d = (entry_data entry)\<lparr>res_fromCache := True\<rparr>))"
  by (auto simp: HttpCache_get_def HttpCache_set_entry jsmap_get_delete_same
      split: option.splits if_splits)

theorem HttpCache_set_get_witness:
  "(1500 \<le> 1000 + num_or None (ttl example_cache) \<and>
    fst (HttpCache_get (HttpCache_set example_cache 1000 ''k'' example_response None None) 1500 ''k'')
      = Some (example_response\<lparr>res_fromCache := True\<rparr>)) \<and>
   (1000 + num_or None (ttl example_cache) < 400000 \<and>
    fst (HttpCache_get (HttpCache_set example_cache 1000 ''k'' example_response None None) 400000 ''k'')
      = None) \<and>
   (\<exists>entry. jsmap_get (cache (HttpCache_set example_cache 1000 ''k'' example_response None None)) ''k''
               = Some entry \<and> 1500 \<le> expires entry)"
proof -
  have early: "(1500 :: int) \<le> 1000 + num_or None (ttl example_cache)"
    and late: "1000 + num_or None (ttl example_cache) < (400000 :: int)"
    by (simp_all add: num_or_def example_cache_fields)
  note fresh = HttpCache_set_get [where now' = 1500 and now = 1000 and customTtl = None
      and c = example_cache and k = "''k''" and v = example_response and etg = None
      and c' = "HttpCache_set example_cache 1000 ''k'' example_response None None"
      and t = 1500 and k' = "''k''" and d = "example_response\<lparr>res_fromCache := True\<rparr>"]
  note stale = HttpCache_set_get [where now' = 400000 and now = 1000 and customTtl = None
      and c = example_cache and k = "''k''" and v = example_response and etg = None
      and c' = example_cache and t = 0 and k' = "''k''" and d = example_response]
  from fresh early
  have hit: "fst (HttpCache_get (HttpCache_set example_cache 1000 ''k'' example_response None None) 1500 ''k'')
      = Some (example_response\<lparr>res_fromCache := True\<rparr>)"
    by blast
  with fresh
  have live: "\<exists>entry. jsmap_get (cache (HttpCache_set example_cache 1000 ''k'' example_response None None)) ''k''
               = Some entry \<and> 1500 \<le> expires entry"
    by blast
  from stale late
  have miss: "fst (HttpCache_get (HttpCache_set example_cache 1000 ''k'' example_response None None) 400000 ''k'')
      = None"
    by blast
  from early late hit miss live show ?thesis by blast
qed

section \<open>Fingerprints and credentials\<close>

text \<open>
  On a memo miss the fingerprint contains the credential: with an empty memo the two
  requests below, which differ only in the value of \<open>Authorization\<close>, get different keys.
\<close>

lemma HttpCache_key_fresh_memo_distinct:
  "fst (HttpCache_key example_cache ''GET'' ''/d'' None (Some [(''Authorization'', ''Bearer A'')]))
     \<noteq> fst (HttpCache_key example_cache ''GET'' ''/d'' None (Some [(''Authorization'', ''Bearer B'')]))"
  by code_simp

text \<open>
  The memo \<open>_authCache\<close> is indexed by the sorted header names only. A second call whose
  headers have the same names finds the entry of the first call and reuses its serialized
  credentials, whatever the header values are.
\<close>

lemma HttpCache_key_memo_hit:
  assumes "join '','' (js_sort (map fst h1)) = join '','' (js_sort (map fst h2))"
  shows "fst (HttpCache_key (snd (HttpCache_key c method url ps (Some h1))) method url ps (Some h2))
           = fst (HttpCache_key c method url ps (Some h1))"
  using assms
  by (simp add: HttpCache_key_def Let_def jsmap_get_set_same split: option.splits)

text \<open>
  Claim C1 (fingerprints of requests that differ only in the value of an auth header are
  different, in whatever cache state the calls are made). The code does not do this: on one
  \<open>HttpCache\<close> instance, after \<open>key('GET', '/d', undefined, {Authorization: 'Bearer A'})\<close> the
  call \<open>key('GET', '/d', undefined, {Authorization: 'Bearer B'})\<close> returns the same
  fingerprint, the one that carries \<open>Bearer A\<close>.
\<close>

theorem HttpCache_key_same_for_other_credential:
  "fst (HttpCache_key
          (snd (HttpCache_key example_cache ''GET'' ''/d'' None (Some [(''Authorization'', ''Bearer A'')])))
          ''GET'' ''/d'' None (Some [(''Authorization'', ''Bearer B'')]))
     = fst (HttpCache_key example_cache ''GET'' ''/d'' None (Some [(''Authorization'', ''Bearer A'')]))
   \<and> fst (HttpCache_key example_cache ''GET'' ''/d'' None (Some [(''Authorization'', ''Bearer A'')]))
     = ''GET'' @ CACHE_SEP @ ''/d'' @ CACHE_SEP @ [] @ CACHE_SEP
         @ ''{'' @ json_string ''authorization'' @ '':'' @ json_string ''Bearer A'' @ ''}''"
  by code_simp

section \<open>Breaker rejections\<close>

text \<open>With a configured fallback a rejection returns what the fallback yields.\<close>

lemma CircuitBreaker_reject_with_fallback:
  assumes "fallback cb = Some r"
    and "state cb = CIRCUIT_OPEN \<and> \<not> CircuitBreaker_shouldReset cb now
         \<or> state cb = CIRCUIT_HALF_OPEN \<and> halfOpenRequestSent cb"
  shows "CircuitBreaker_enter cb now = (Rejected r, cb)"
  using assms by (auto simp: CircuitBreaker_enter_def this_fallback_def)

text \<open>
  Claim C2 (a rejected call without a configured fallback surfaces the dedicated
  "service unavailable" error). The code does not do this. The breaker below has no
  fallback, is open since time 20 and is called at time 30, before the reset timeout of
  60000 ms: the thunk is not invoked, and the call fails with the \<open>TypeError\<close> of calling a
  non-function, not with the error that the method \<open>fallback()\<close> would throw. The same
  happens in state half-open while the probe is in flight.
\<close>

theorem CircuitBreaker_reject_without_fallback:
  "fst (CircuitBreaker_enter
          (example_breaker\<lparr>state := CIRCUIT_OPEN, failureCount := 2, lastFailureTime := Some 20\<rparr>) 30)
     = Rejected (Inl (JsError ''TypeError'' ''this.fallback is not a function''))
   \<and> fst (CircuitBreaker_enter
          (example_breaker\<lparr>state := CIRCUIT_HALF_OPEN, failureCount := 2,
                            lastFailureTime := Some 20, halfOpenRequestSent := True\<rparr>) 70000)
     = Rejected (Inl (JsError ''TypeError'' ''this.fallback is not a function''))
   \<and> CircuitBreaker_fallback_method
          (example_breaker\<lparr>state := CIRCUIT_OPEN, failureCount := 2, lastFailureTime := Some 20\<rparr>)
     = Inl service_unavailable
   \<and> (service_unavailable :: string thrown) \<noteq> JsError ''TypeError'' ''this.fallback is not a function''"
  by (simp add: CircuitBreaker_enter_def CircuitBreaker_shouldReset_def this_fallback_def
      CircuitBreaker_fallback_method_def example_breaker_def CircuitBreaker_new_def
      service_unavailable_def num_or_def)

section \<open>Breaker transitions\<close>

text \<open>A success of the probe closes the breaker and zeroes the failure count.\<close>

lemma CircuitBreaker_probe_success:
  assumes "state cb = CIRCUIT_HALF_OPEN"
  shows "state (snd (CircuitBreaker_settle cb now (Inr v))) = CIRCUIT_CLOSED
         \<and> failureCount (snd (CircuitBreaker_settle cb now (Inr v))) = 0"
  using assms by (simp add: CircuitBreaker_settle_def CircuitBreaker_onSuccess_def)

text \<open>
  A failure opens the breaker exactly when the incremented count reaches the threshold;
  \<open>onFailure\<close> does not look at the state.
\<close>

lemma CircuitBreaker_failure_state:
  "state (snd (CircuitBreaker_settle cb now (Inl e)))
     = (if failureThreshold cb \<le> failureCount cb + 1 then CIRCUIT_OPEN else state cb)
   \<and> lastFailureTime (snd (CircuitBreaker_settle cb now (Inl e))) = Some now"
  by (simp add: CircuitBreaker_settle_def CircuitBreaker_onFailure_def)

text \<open>
  From the closed state with a failure count of \<open>c\<close>, calls that fail one after the other
  leave the breaker closed until the count reaches the threshold, and the failure that
  reaches it opens the breaker: after \<open>failureThreshold - c\<close> failures the state is open.
\<close>

lemma CircuitBreaker_consecutive_failures:
  assumes "state cb = CIRCUIT_CLOSED" and "failureCount cb + int (length ts) = failureThreshold cb"
    and "ts \<noteq> []"
  shows "state (failing_calls cb ts) = CIRCUIT_OPEN"
  using assms
proof (induction ts arbitrary: cb)
  case Nil
  then show ?case by simp
next
  case (Cons t ts)
  let ?cb1 = "snd (CircuitBreaker_call cb t (Inl Undefined) t)"
  have step: "?cb1 = CircuitBreaker_onFailure cb t"
    using Cons.prems(1)
    by (simp add: CircuitBreaker_call_def CircuitBreaker_enter_def CircuitBreaker_settle_def)
  show ?case
  proof (cases ts)
    case Nil
    with Cons.prems step show ?thesis
      by (simp add: CircuitBreaker_onFailure_def)
  next
    case (Cons t' ts')
    with Cons.prems step have "state ?cb1 = CIRCUIT_CLOSED"
      and "failureCount ?cb1 + int (length ts) = failureThreshold ?cb1"
      by (simp_all add: CircuitBreaker_onFailure_def)
    with Cons.IH[of ?cb1] Cons show ?thesis by simp
  qed
qed

lemma CircuitBreaker_threshold_failures_open:
  assumes "1 \<le> optThreshold" and "int (length ts) = optThreshold"
  shows "state (failing_calls (CircuitBreaker_new (Some optThreshold) optReset optFallback) ts)
           = CIRCUIT_OPEN"
proof -
  from assms have "ts \<noteq> []" by auto
  with assms show ?thesis
    by (intro CircuitBreaker_consecutive_failures) (auto simp: CircuitBreaker_new_def num_or_def)
qed

text \<open>
  Claim C4 (any probe failure while half-open returns the state to open). The code does
  not do this when calls overlap. With \<open>failureThreshold = 2\<close> three calls are admitted while
  the breaker is closed; two fail, which opens the breaker, and the third then succeeds,
  which zeroes \<open>failureCount\<close> while the state stays open. After the reset timeout the next
  call becomes the probe; when it fails the count is 1, below the threshold, and the state
  stays half-open with \<open>halfOpenRequestSent\<close> set, so every later call is rejected.
\<close>

theorem CircuitBreaker_probe_failure_stays_half_open:
  "run_events (example_breaker, 0)
     [CallArrives 0, CallArrives 1, CallArrives 2, ThunkFails 10, ThunkFails 20, ThunkSucceeds 30]
     = Some (example_breaker\<lparr>state := CIRCUIT_OPEN, failureCount := 0,
                              lastFailureTime := Some 20, successCount := 1\<rparr>, 0)
   \<and> run_events (example_breaker, 0)
     [CallArrives 0, CallArrives 1, CallArrives 2, ThunkFails 10, ThunkFails 20, ThunkSucceeds 30,
      CallArrives 60021, ThunkFails 60050]
     = Some (example_breaker\<lparr>state := CIRCUIT_HALF_OPEN, failureCount := 1,
                              lastFailureTime := Some 60050, successCount := 1,
                              halfOpenRequestSent := True\<rparr>, 0)
   \<and> (\<forall>now. fst (CircuitBreaker_enter
          (example_breaker\<lparr>state := CIRCUIT_HALF_OPEN, failureCount := 1,
                            lastFailureTime := Some 60050, successCount := 1,
                            halfOpenRequestSent := True\<rparr>) now)
        = Rejected (Inl (JsError ''TypeError'' ''this.fallback is not a function'')))"
  by (simp add: CircuitBreaker_enter_def CircuitBreaker_settle_def CircuitBreaker_onFailure_def
      CircuitBreaker_onSuccess_def CircuitBreaker_shouldReset_def example_breaker_def
      CircuitBreaker_new_def num_or_def Let_def this_fallback_def)

section \<open>The retry loop\<close>

lemma executeWithRetry_from_gives_up:
  assumes "attempt \<le> retryAttempts g"
    and "executeHttpRequest g tr cfg (dispatched w) = (Inl error, n)"
    and "attempt = retryAttempts g \<or> \<not> retryCondition g error"
  shows "executeWithRetry_from g tr cfg attempt lastError w
           = (Inl (callErrorInterceptors (errorInterceptors g) error), w\<lparr>dispatched := n\<rparr>)"
  using assms by (subst executeWithRetry_from.simps) auto

lemma executeWithRetry_from_thrown:
  assumes "executeWithRetry_from g tr cfg attempt lastError w = (Inl x, w')"
    and "attempt \<le> retryAttempts g"
  shows "\<exists>error n. fst (executeHttpRequest g tr cfg n) = Inl error
            \<and> x = callErrorInterceptors (errorInterceptors g) error"
  using assms
proof (induction g tr cfg attempt lastError w rule: executeWithRetry_from.induct)
  case (1 g tr cfg attempt lastError w)
  obtain res n where ex: "executeHttpRequest g tr cfg (dispatched w) = (res, n)"
    by (cases "executeHttpRequest g tr cfg (dispatched w)")
  show ?case
  proof (cases res)
    case (Inr response)
    with ex "1.prems" show ?thesis
      by (subst (asm) executeWithRetry_from.simps) auto
  next
    case (Inl error)
    show ?thesis
    proof (cases "attempt = retryAttempts g \<or> \<not> retryCondition g error")
      case True
      with ex Inl "1.prems" have "x = callErrorInterceptors (errorInterceptors g) error"
        by (subst (asm) executeWithRetry_from.simps) auto
      moreover from ex Inl have "fst (executeHttpRequest g tr cfg (dispatched w)) = Inl error"
        by simp
      ultimately show ?thesis by blast
    next
      case False
      with ex Inl "1.prems" have rec:
        "executeWithRetry_from g tr cfg (Suc attempt) error
           (w\<lparr>dispatched := n, slept := slept w @ [retry_wait g attempt error]\<rparr>) = (Inl x, w')"
        by (subst (asm) executeWithRetry_from.simps) auto
      from False "1.prems" have suc: "Suc attempt \<le> retryAttempts g" by auto
      show ?thesis
        by (rule "1.IH"[OF "1.prems"(2) ex[symmetric] Inl False rec suc])
    qed
  qed
qed

lemma executeWithRetry_from_count:
  assumes always: "\<forall>n. \<exists>e. executeHttpRequest g tr cfg n = (Inl e, Suc n) \<and> retryCondition g e"
  shows "dispatched (snd (executeWithRetry_from g tr cfg attempt lastError w))
           = dispatched w + (Suc (retryAttempts g) - attempt)
         \<and> (\<exists>x. fst (executeWithRetry_from g tr cfg attempt lastError w) = Inl x)"
  using always
proof (induction g tr cfg attempt lastError w rule: executeWithRetry_from.induct)
  case (1 g tr cfg attempt lastError w)
  show ?case
  proof (cases "attempt \<le> retryAttempts g")
    case False
    then show ?thesis
      by (subst (1 2) executeWithRetry_from.simps) simp
  next
    case True
    from "1.prems" obtain e where
      ex: "executeHttpRequest g tr cfg (dispatched w) = (Inl e, Suc (dispatched w))"
      and re: "retryCondition g e"
      by blast
    show ?thesis
    proof (cases "attempt = retryAttempts g")
      case True
      with ex show ?thesis
        by (subst (1 2) executeWithRetry_from.simps) simp
    next
      case False
      with True have lt: "Suc attempt \<le> retryAttempts g" by simp
      have ih: "dispatched (snd (executeWithRetry_from g tr cfg (Suc attempt) e
                   (w\<lparr>dispatched := Suc (dispatched w), slept := slept w @ [retry_wait g attempt e]\<rparr>)))
                 = dispatched (w\<lparr>dispatched := Suc (dispatched w), slept := slept w @ [retry_wait g attempt e]\<rparr>)
                     + (Suc (retryAttempts g) - Suc attempt)
               \<and> (\<exists>x. fst (executeWithRetry_from g tr cfg (Suc attempt) e
                   (w\<lparr>dispatched := Suc (dispatched w), slept := slept w @ [retry_wait g attempt e]\<rparr>)) = Inl x)"
        using "1.IH"[OF True ex[symmetric] refl _ "1.prems"] False re by simp
      from True False ex re ih lt show ?thesis
        by (subst (1 2) executeWithRetry_from.simps) simp
    qed
  qed
qed

lemma normalizeRetry_attempts_range: "normalizeRetry_attempts a \<le> 10"
  by (simp add: normalizeRetry_attempts_def nat_le_iff split: option.splits)

lemma example_config_fields:
  "cfg_signal example_config = None" "cfg_responseType example_config = None"
  "cfg_url example_config = ''/b''" "cfg_params example_config = None"
  "cfg_headers example_config = None" "cfg_timeout example_config = None"
  by (simp_all add: example_config_def)

lemma example_grab_fields:
  "retryCondition example_grab = defaultRetryCondition" "retryAttempts example_grab = 3"
  "errorInterceptors example_grab = []"
  by (simp_all add: example_grab_def)

lemma example_prepare:
  "executeHttpRequest_prepare example_grab example_config
     = Inr (''https://api.example.com/b'',
            \<lparr>opt_method = ''GET'', opt_body = None, opt_credentials = ''same-origin'',
             opt_headers = [(''Content-Type'', ''application/json'')], opt_priority = None,
             opt_signal_aborted = False\<rparr>,
            30000)"
  by (simp add: executeHttpRequest_prepare_def example_grab_def example_config_def resolveUrl_def
      buildFetchOptions_def buildUrl_def startsWith_def check_request_size_def spread_def
      truthy_str_def num_or_def)

lemma example_failing_attempt:
  "executeHttpRequest example_grab failing_transport example_config n
     = (Inl (NetworkError ''Failed to fetch'' ''https://api.example.com/b''), Suc n)"
  by (simp add: executeHttpRequest_def example_prepare failing_transport_def
      example_config_fields)

text \<open>
  Claim C6. If every call of \<open>executeHttpRequest\<close> for the request dispatches and fails
  with an error for which \<open>retryCondition\<close> is true, then \<open>executeWithRetry\<close> calls the
  transport exactly \<open>retryAttempts\<close> times and throws. The value that \<open>normalizeRetry\<close> stores
  in \<open>retryAttempts\<close> is at most 10.
\<close>

theorem executeWithRetry_dispatch_count:
  assumes "\<forall>n. \<exists>e. executeHttpRequest g tr cfg n = (Inl e, Suc n) \<and> retryCondition g e"
  shows "dispatched (snd (executeWithRetry g tr cfg w)) = dispatched w + retryAttempts g
         \<and> (\<exists>x. fst (executeWithRetry g tr cfg w) = Inl x)
         \<and> normalizeRetry_attempts a \<le> 10"
  using executeWithRetry_from_count[OF assms, of 1 Undefined w] normalizeRetry_attempts_range[of a]
  by (simp add: executeWithRetry_def)

theorem executeWithRetry_dispatch_count_witness:
  "(\<forall>n. \<exists>e. executeHttpRequest example_grab failing_transport example_config n = (Inl e, Suc n)
            \<and> retryCondition example_grab e)
   \<and> dispatched (snd (executeWithRetry example_grab failing_transport example_config example_world)) = 3"
proof -
  have h: "\<forall>n. \<exists>e. executeHttpRequest example_grab failing_transport example_config n = (Inl e, Suc n)
                     \<and> retryCondition example_grab e"
    by (simp add: example_failing_attempt example_grab_fields)
  from executeWithRetry_dispatch_count[OF h, of example_world] h show ?thesis
    by (simp add: example_world_def example_grab_fields)
qed

section \<open>The default retry condition\<close>

text \<open>
  Claim C7 as stated (true exactly for network errors, timeouts and the statuses 408, 429
  and 500 to 599) fails on an \<open>HttpError\<close> with status 600, which is outside that set and
  for which the function answers true.
\<close>

theorem defaultRetryCondition_status_600:
  "defaultRetryCondition (HttpError ''HTTP 600: '' 600 ''https://api.example.com/b'' (example_raw 600))
   \<and> \<not> (600 = (408 :: int) \<or> 600 = (429 :: int) \<or> (500 \<le> (600 :: int) \<and> (600 :: int) \<le> 599))"
  by simp

text \<open>
  Claim C7, amended: \<open>defaultRetryCondition\<close> is true exactly for a \<open>NetworkError\<close>, a
  \<open>TimeoutError\<close>, and an \<open>HttpError\<close> whose status is 408, 429 or at least 500; it is false
  for every other thrown value.
\<close>

theorem defaultRetryCondition_iff:
  "defaultRetryCondition e \<longleftrightarrow>
     (\<exists>m u. e = NetworkError m u) \<or> (\<exists>u t. e = TimeoutError u t)
     \<or> (\<exists>m st u r. e = HttpError m st u r \<and> (st = 408 \<or> st = 429 \<or> 500 \<le> st))"
  by (cases e) auto

section \<open>The error interceptor chain\<close>

lemma callErrorInterceptors_append:
  "callErrorInterceptors (fns @ gns) e = callErrorInterceptors gns (callErrorInterceptors fns e)"
  by (induction fns arbitrary: e) simp_all

lemma prepare_retry_fields:
  "executeHttpRequest_prepare (g\<lparr>retryAttempts := a, errorInterceptors := b\<rparr>) cfg
     = executeHttpRequest_prepare g cfg"
proof -
  have 1: "resolveUrl (g\<lparr>retryAttempts := a, errorInterceptors := b\<rparr>) (cfg_url cfg)
             = resolveUrl g (cfg_url cfg)"
    by (simp add: resolveUrl_def)
  have 2: "check_request_size (g\<lparr>retryAttempts := a, errorInterceptors := b\<rparr>) (cfg_body cfg)
             = check_request_size g (cfg_body cfg)"
    by (simp add: check_request_size_def cong: option.case_cong sum.case_cong if_cong)
  have 3: "buildFetchOptions (g\<lparr>retryAttempts := a, errorInterceptors := b\<rparr>) cfg
             = buildFetchOptions g cfg"
    by (simp add: buildFetchOptions_def 2 cong: option.case_cong sum.case_cong if_cong)
  show ?thesis
    by (simp add: executeHttpRequest_prepare_def 1 3 cong: sum.case_cong)
qed

lemma executeHttpRequest_retry_fields:
  "executeHttpRequest (g\<lparr>retryAttempts := a, errorInterceptors := b\<rparr>) tr cfg n
     = executeHttpRequest g tr cfg n"
proof -
  have br: "buildResponse (g\<lparr>retryAttempts := a, errorInterceptors := b\<rparr>) = buildResponse g"
    by (simp add: buildResponse_def fun_eq_iff cong: sum.case_cong if_cong)
  show ?thesis
    unfolding executeHttpRequest_def prepare_retry_fields br by (rule refl)
qed

lemma intercepting_failing_attempt:
  "executeHttpRequest intercepting_grab failing_transport example_config n
     = (Inl (NetworkError ''Failed to fetch'' ''https://api.example.com/b''), Suc n)"
  by (simp add: intercepting_grab_def executeHttpRequest_retry_fields example_failing_attempt)

lemma intercepting_grab_fields:
  "retryAttempts intercepting_grab = 1" "errorInterceptors intercepting_grab = example_interceptors"
  by (simp_all add: intercepting_grab_def)

text \<open>
  Claim C8. The chain starts from the error it is given and applies the interceptors in
  registration order: the last interceptor receives the outcome of the chain before it; a
  value it returns replaces the current error unless it is \<open>undefined\<close>, in which case the
  current error stays; a value it throws becomes the current error. When the retry loop
  gives up on the error of an attempt (final attempt, or \<open>retryCondition\<close> false) it throws
  the outcome of the chain on that error, every value the loop throws after at least one
  attempt is such an outcome, and the breaker rethrows it unchanged.
\<close>

theorem callErrorInterceptors_outcome:
  "callErrorInterceptors [] e = e
   \<and> callErrorInterceptors (fns @ [fn]) e =
       (case fn (callErrorInterceptors fns e) of
          Returns result \<Rightarrow> if result \<noteq> Undefined then result else callErrorInterceptors fns e
        | Throws err \<Rightarrow> err)
   \<and> (attempt \<le> retryAttempts g \<and> executeHttpRequest g tr cfg (dispatched w) = (Inl error, n)
        \<and> (attempt = retryAttempts g \<or> \<not> retryCondition g error) \<longrightarrow>
       fst (executeWithRetry_from g tr cfg attempt lastError w)
         = Inl (callErrorInterceptors (errorInterceptors g) error))
   \<and> (1 \<le> retryAttempts g \<and> fst (executeWithRetry g tr cfg w) = Inl x \<longrightarrow>
       (\<exists>error k. fst (executeHttpRequest g tr cfg k) = Inl error
                   \<and> x = callErrorInterceptors (errorInterceptors g) error))
   \<and> fst (CircuitBreaker_settle cb now (Inl x)) = Inl x"
proof -
  have a: "callErrorInterceptors (fns @ [fn]) e =
       (case fn (callErrorInterceptors fns e) of
          Returns result \<Rightarrow> if result \<noteq> Undefined then result else callErrorInterceptors fns e
        | Throws err \<Rightarrow> err)"
    by (simp add: callErrorInterceptors_append)
  have b: "attempt \<le> retryAttempts g \<and> executeHttpRequest g tr cfg (dispatched w) = (Inl error, n)
        \<and> (attempt = retryAttempts g \<or> \<not> retryCondition g error) \<longrightarrow>
       fst (executeWithRetry_from g tr cfg attempt lastError w)
         = Inl (callErrorInterceptors (errorInterceptors g) error)"
    by (auto simp: executeWithRetry_from_gives_up)
  have c: "1 \<le> retryAttempts g \<and> fst (executeWithRetry g tr cfg w) = Inl x \<longrightarrow>
       (\<exists>error k. fst (executeHttpRequest g tr cfg k) = Inl error
                   \<and> x = callErrorInterceptors (errorInterceptors g) error)"
  proof (intro impI, elim conjE)
    assume r: "1 \<le> retryAttempts g" and f: "fst (executeWithRetry g tr cfg w) = Inl x"
    then have "executeWithRetry_from g tr cfg 1 Undefined w
                 = (Inl x, snd (executeWithRetry_from g tr cfg 1 Undefined w))"
      by (simp add: executeWithRetry_def prod_eq_iff)
    from executeWithRetry_from_thrown[OF this r] show
      "\<exists>error k. fst (executeHttpRequest g tr cfg k) = Inl error
                   \<and> x = callErrorInterceptors (errorInterceptors g) error" .
  qed
  have d: "fst (CircuitBreaker_settle cb now (Inl x)) = Inl x"
    by (simp add: CircuitBreaker_settle_def)
  from a b c d show ?thesis by simp
qed

theorem callErrorInterceptors_outcome_witness:
  "(1 \<le> retryAttempts intercepting_grab
    \<and> executeHttpRequest intercepting_grab failing_transport example_config (dispatched example_world)
        = (Inl (NetworkError ''Failed to fetch'' ''https://api.example.com/b''), 1)
    \<and> (1 = retryAttempts intercepting_grab
        \<or> \<not> retryCondition intercepting_grab (NetworkError ''Failed to fetch'' ''https://api.example.com/b'')))
   \<and> fst (executeWithRetry intercepting_grab failing_transport example_config example_world)
        = Inl (JsError ''Error'' ''wrapped: first'')
   \<and> (\<exists>error k. fst (executeHttpRequest intercepting_grab failing_transport example_config k) = Inl error
         \<and> JsError ''Error'' ''wrapped: first''
             = callErrorInterceptors (errorInterceptors intercepting_grab) error)"
proof -
  have h: "1 \<le> retryAttempts intercepting_grab
    \<and> executeHttpRequest intercepting_grab failing_transport example_config (dispatched example_world)
        = (Inl (NetworkError ''Failed to fetch'' ''https://api.example.com/b''), 1)
    \<and> (1 = retryAttempts intercepting_grab
        \<or> \<not> retryCondition intercepting_grab (NetworkError ''Failed to fetch'' ''https://api.example.com/b''))"
    by (simp add: intercepting_failing_attempt intercepting_grab_fields example_world_def)
  have chain: "callErrorInterceptors (errorInterceptors intercepting_grab)
                 (NetworkError ''Failed to fetch'' ''https://api.example.com/b'')
               = JsError ''Error'' ''wrapped: first''"
    by (simp add: intercepting_grab_fields example_interceptors_def)
  note inst = callErrorInterceptors_outcome[where attempt = 1 and g = intercepting_grab
      and tr = failing_transport and cfg = example_config and w = example_world
      and error = "NetworkError ''Failed to fetch'' ''https://api.example.com/b''" and n = 1
      and lastError = Undefined and x = "JsError ''Error'' ''wrapped: first''"]
  from inst have b: "1 \<le> retryAttempts intercepting_grab
    \<and> executeHttpRequest intercepting_grab failing_transport example_config (dispatched example_world)
        = (Inl (NetworkError ''Failed to fetch'' ''https://api.example.com/b''), 1)
    \<and> (1 = retryAttempts intercepting_grab
        \<or> \<not> retryCondition intercepting_grab (NetworkError ''Failed to fetch'' ''https://api.example.com/b''))
    \<longrightarrow> fst (executeWithRetry_from intercepting_grab failing_transport example_config 1 Undefined example_world)
          = Inl (callErrorInterceptors (errorInterceptors intercepting_grab)
                   (NetworkError ''Failed to fetch'' ''https://api.example.com/b''))"
    by (rule conjunct1[OF conjunct2[OF conjunct2]])
  from b h have "fst (executeWithRetry_from intercepting_grab failing_transport example_config 1 Undefined example_world)
          = Inl (callErrorInterceptors (errorInterceptors intercepting_grab)
                   (NetworkError ''Failed to fetch'' ''https://api.example.com/b''))"
    by (rule mp)
  with chain have r: "fst (executeWithRetry intercepting_grab failing_transport example_config example_world)
        = Inl (JsError ''Error'' ''wrapped: first'')"
    by (simp add: executeWithRetry_def)
  from inst have c: "1 \<le> retryAttempts intercepting_grab
      \<and> fst (executeWithRetry intercepting_grab failing_transport example_config example_world)
          = Inl (JsError ''Error'' ''wrapped: first'')
      \<longrightarrow> (\<exists>error k. fst (executeHttpRequest intercepting_grab failing_transport example_config k) = Inl error
         \<and> JsError ''Error'' ''wrapped: first''
             = callErrorInterceptors (errorInterceptors intercepting_grab) error)"
    by (rule conjunct1[OF conjunct2[OF conjunct2[OF conjunct2]]])
  from h r have "1 \<le> retryAttempts intercepting_grab
      \<and> fst (executeWithRetry intercepting_grab failing_transport example_config example_world)
          = Inl (JsError ''Error'' ''wrapped: first'')" by simp
  with c have "\<exists>error k. fst (executeHttpRequest intercepting_grab failing_transport example_config k) = Inl error
         \<and> JsError ''Error'' ''wrapped: first''
             = callErrorInterceptors (errorInterceptors intercepting_grab) error"
    by (rule mp)
  with h r show ?thesis by blast
qed

section \<open>Aborted transport calls\<close>


















section \<open>A 304 response without a cache entry\<close>

lemma HttpCache_set_etags:
  "jsmap_get (etags (HttpCache_set c now k v customTtl (Some t))) k = (if t \<noteq> [] then Some t
     else jsmap_get (etags (HttpCache_set c now k v customTtl None)) k)"
  by (simp add: HttpCache_set_def HttpCache_scheduleCleanup_def Let_def jsmap_get_set_same
      split: option.splits)

text \<open>
  Claim C10. A transport response with status 304 makes \<open>buildResponse\<close> return a
  descriptor with \<open>ok = true\<close> and \<open>data = null\<close>. If the \<open>then\<close> handler of the cacheable path
  runs on it while the cache has no entry for the fingerprint, the handler returns this
  descriptor to the caller and stores it as a new entry with expiry \<open>now + ttl\<close>, together
  with the ETag of the response when that is a non-empty string; every \<open>get\<close> up to the
  expiry then returns the descriptor, whose data is null, marked \<open>fromCache\<close>.
\<close>

theorem cacheableRequest_304_without_entry:
  assumes "raw_status raw = 304" and "jsmap_get (cache c) k = None"
  shows "\<exists>d. buildResponse g raw rt url = Inr d
           \<and> res_ok d \<and> res_status d = 304 \<and> res_data d = None
           \<and> fst (cacheableRequest_then c now k d) = d
           \<and> snd (cacheableRequest_then c now k d)
               = HttpCache_set c now k d None (Headers_get (raw_headers raw) ''etag'')
           \<and> jsmap_get (cache (snd (cacheableRequest_then c now k d))) k
               = Some \<lparr>entry_data = d, expires = now + ttl c,
                       entry_etag = Headers_get (raw_headers raw) ''etag''\<rparr>
           \<and> (\<forall>t. Headers_get (raw_headers raw) ''etag'' = Some t \<and> t \<noteq> [] \<longrightarrow>
                 HttpCache_etag (snd (cacheableRequest_then c now k d)) k = Some t)
           \<and> (\<forall>now'. now' \<le> now + ttl c \<longrightarrow>
                 fst (HttpCache_get (snd (cacheableRequest_then c now k d)) now' k)
                   = Some (d\<lparr>res_fromCache := True\<rparr>)
                 \<and> res_data (d\<lparr>res_fromCache := True\<rparr>) = None)"
proof -
  let ?d = "\<lparr>res_ok = True, res_status = 304, res_statusText = ''Not Modified'',
             res_headers = raw_headers raw, res_url = raw_url raw, res_data = None,
             res_etag = None, res_fromCache = False\<rparr> :: 'a response"
  let ?etag = "Headers_get (raw_headers raw) ''etag''"
  have b: "buildResponse g raw rt url = Inr ?d"
    using assms(1) by (simp add: buildResponse_def)
  have t: "cacheableRequest_then c now k ?d = (?d, HttpCache_set c now k ?d None ?etag)"
    using assms(2)
    by (simp add: cacheableRequest_then_def HttpCache_refresh_def HttpCache_get_def)
  let ?c' = "snd (cacheableRequest_then c now k ?d)"
  have c': "?c' = HttpCache_set c now k ?d None ?etag"
    by (simp add: t)
  have e: "jsmap_get (cache ?c') k
             = Some \<lparr>entry_data = ?d, expires = now + ttl c, entry_etag = ?etag\<rparr>"
    unfolding c' using HttpCache_set_entry[of c now k ?d None ?etag] by (simp add: num_or_def)
  have g: "\<forall>t. ?etag = Some t \<and> t \<noteq> [] \<longrightarrow> HttpCache_etag ?c' k = Some t"
    unfolding c' by (simp add: HttpCache_etag_def HttpCache_set_etags)
  have h: "\<forall>now'. now' \<le> now + ttl c \<longrightarrow>
             fst (HttpCache_get ?c' now' k) = Some (?d\<lparr>res_fromCache := True\<rparr>)
             \<and> res_data (?d\<lparr>res_fromCache := True\<rparr>) = None"
    by (simp add: HttpCache_get_def e)
  have f: "fst (cacheableRequest_then c now k ?d) = ?d"
    by (simp add: t)
  have p: "res_ok ?d \<and> res_status ?d = 304 \<and> res_data ?d = None"
    by simp
  from b p f c' e g h show ?thesis
    by (intro exI[of _ ?d] conjI) blast+
qed

theorem cacheableRequest_304_without_entry_witness:
  "raw_status (example_raw 304) = 304
   \<and> jsmap_get (cache example_cache) ''K'' = None
   \<and> (\<exists>d. buildResponse example_grab (example_raw 304) ''auto'' ''https://api.example.com/b'' = Inr d
          \<and> res_data d = None
          \<and> HttpCache_etag (snd (cacheableRequest_then example_cache 1000 ''K'' d)) ''K'' = Some ''v1''
          \<and> fst (HttpCache_get (snd (cacheableRequest_then example_cache 1000 ''K'' d)) 2000 ''K'')
               = Some (d\<lparr>res_fromCache := True\<rparr>))"
proof -
  have s: "raw_status (example_raw 304) = 304"
    by (simp add: example_raw_def)
  have n: "jsmap_get (cache example_cache) ''K'' = None"
    by (simp add: example_cache_fields jsmap_get_def)
  have e: "Headers_get (raw_headers (example_raw 304)) ''etag'' = Some ''v1''"
    by (simp add: example_raw_def Headers_get_def)
  have l: "(2000 :: int) \<le> 1000 + ttl example_cache"
    by (simp add: example_cache_fields)
  from cacheableRequest_304_without_entry[OF s n, of example_grab "''auto''"
      "''https://api.example.com/b''" 1000] e l
  have "\<exists>d. buildResponse example_grab (example_raw 304) ''auto'' ''https://api.example.com/b'' = Inr d
          \<and> res_data d = None
          \<and> HttpCache_etag (snd (cacheableRequest_then example_cache 1000 ''K'' d)) ''K'' = Some ''v1''
          \<and> fst (HttpCache_get (snd (cacheableRequest_then example_cache 1000 ''K'' d)) 2000 ''K'')
               = Some (d\<lparr>res_fromCache := True\<rparr>)"
    by fastforce
  with s n show ?thesis by blast
qed

section \<open>Coalescing of requests in flight\<close>

lemma HttpCache_key_again:
  assumes "HttpCache_key c m u ps hs = (K, c1)" and "authCache c' = authCache c1"
  shows "HttpCache_key c' m u ps hs = (K, c')"
proof (cases "jsmap_get (authCache c)
                (join '','' (js_sort (map fst (case hs of None \<Rightarrow> [] | Some h \<Rightarrow> h))))")
  case None
  with assms(1) have "c1 = c\<lparr>authCache := authCache c1\<rparr>"
    and "jsmap_get (authCache c1)
           (join '','' (js_sort (map fst (case hs of None \<Rightarrow> [] | Some h \<Rightarrow> h))))
         = Some (if extract_auth (authHeaders c)  (case hs of None \<Rightarrow> [] | Some h \<Rightarrow> h) \<noteq> []
                 then JSON_stringify (extract_auth (authHeaders c) (case hs of None \<Rightarrow> [] | Some h \<Rightarrow> h)) else [])"
    and "K = join CACHE_SEP [m, u, (if (case ps of None \<Rightarrow> [] | Some p \<Rightarrow> p) \<noteq> []
                                     then JSON_stringify (case ps of None \<Rightarrow> [] | Some p \<Rightarrow> p) else []),
               (if extract_auth (authHeaders c)  (case hs of None \<Rightarrow> [] | Some h \<Rightarrow> h) \<noteq> []
                 then JSON_stringify (extract_auth (authHeaders c) (case hs of None \<Rightarrow> [] | Some h \<Rightarrow> h)) else [])]"
    by (auto simp: HttpCache_key_def Let_def jsmap_get_set_same)
  with assms(2) show ?thesis
    by (simp add: HttpCache_key_def Let_def)
next
  case (Some a)
  with assms(1) have "c1 = c" and "K = join CACHE_SEP [m, u, (if (case ps of None \<Rightarrow> [] | Some p \<Rightarrow> p) \<noteq> []
                                     then JSON_stringify (case ps of None \<Rightarrow> [] | Some p \<Rightarrow> p) else []), a]"
    by (auto simp: HttpCache_key_def Let_def)
  with assms(2) Some show ?thesis
    by (simp add: HttpCache_key_def Let_def)
qed

lemma HttpCache_key_keeps:
  "pending (snd (HttpCache_key c m u ps hs)) = pending c
   \<and> cache (snd (HttpCache_key c m u ps hs)) = cache c
   \<and> etags (snd (HttpCache_key c m u ps hs)) = etags c"
  by (simp add: HttpCache_key_def Let_def split: option.splits)

lemma HttpCache_get_keeps:
  "authCache (snd (HttpCache_get c now k)) = authCache c
   \<and> pending (snd (HttpCache_get c now k)) = pending c"
  by (simp add: HttpCache_get_def split: option.splits)

lemma cacheableRequest_begin_joins:
  assumes url: "resolveUrl g (cfg_url cfg) = Inr url"
    and pend: "HttpCache_getPending (grab_cache g)
           (fst (HttpCache_key (grab_cache g) ''GET'' url (cfg_params cfg) (cfg_headers cfg))) = Some q"
  shows "cacheableRequest_begin g tr w now cfg
           = (Joined q,
              g\<lparr>grab_cache := snd (HttpCache_key (grab_cache g) ''GET'' url (cfg_params cfg) (cfg_headers cfg))\<rparr>,
              w)"
proof -
  obtain K c1 where key: "HttpCache_key (grab_cache g) ''GET'' url (cfg_params cfg) (cfg_headers cfg) = (K, c1)"
    by (cases "HttpCache_key (grab_cache g) ''GET'' url (cfg_params cfg) (cfg_headers cfg)")
  from HttpCache_key_keeps[of "grab_cache g" "''GET''" url "cfg_params cfg" "cfg_headers cfg"] key
  have "pending c1 = pending (grab_cache g)" by simp
  with pend key have "HttpCache_getPending c1 K = Some q"
    by (simp add: HttpCache_getPending_def)
  with url key show ?thesis
    by (simp add: cacheableRequest_begin_def)
qed

lemma cacheableRequest_begin_started:
  assumes "cacheableRequest_begin g tr w now cfg = (Started r, g1, w1)"
  shows "cacheableRequest_begin g1 tr w1 t cfg = (Joined (inf_promise r), g1, w1)"
    and "inf_admission r = fst (CircuitBreaker_enter (circuitBreaker g) now)"
    and "w1\<lparr>dispatched := inf_first r\<rparr> = w\<lparr>promises := Suc (promises w)\<rparr>"
    and "inf_admission r \<noteq> Admitted \<longrightarrow> dispatched w1 = dispatched w"
    and "\<exists>c. g1 = g\<lparr>grab_cache := c,
                     circuitBreaker := snd (CircuitBreaker_enter (circuitBreaker g) now)\<rparr>"
    and "dispatched w1 = (if inf_admission r = Admitted \<and> 1 \<le> retryAttempts g
                          then snd (executeHttpRequest g tr (inf_config r) (dispatched w))
                          else dispatched w)"
proof -
  obtain url where url: "resolveUrl g (cfg_url cfg) = Inr url"
  proof (cases "resolveUrl g (cfg_url cfg)")
    case (Inl e)
    with assms show ?thesis by (simp add: cacheableRequest_begin_def)
  next
    case (Inr u)
    then show ?thesis by (rule that)
  qed
  obtain K c1 where key: "HttpCache_key (grab_cache g) ''GET'' url (cfg_params cfg) (cfg_headers cfg) = (K, c1)"
    by (cases "HttpCache_key (grab_cache g) ''GET'' url (cfg_params cfg) (cfg_headers cfg)")
  obtain hit c2 where get: "HttpCache_get c1 now K = (hit, c2)"
    by (cases "HttpCache_get c1 now K")
  have nopending: "HttpCache_getPending c1 K = None"
  proof (cases "HttpCache_getPending c1 K")
    case (Some q)
    with assms url key show ?thesis by (simp add: cacheableRequest_begin_def)
  qed simp
  have miss: "hit = None"
  proof (cases hit)
    case (Some cached)
    with assms url key nopending get show ?thesis by (simp add: cacheableRequest_begin_def)
  qed simp
  let ?cfg1 = "add_if_none_match cfg (HttpCache_etag c2 K)"
  let ?entered = "CircuitBreaker_enter (circuitBreaker g) now"
  from assms url key nopending get miss have
    r: "r = \<lparr>inf_promise = promises w, inf_key = K, inf_config = ?cfg1,
             inf_admission = fst ?entered, inf_first = dispatched w\<rparr>"
    and g1: "g1 = g\<lparr>grab_cache := HttpCache_track c2 K (promises w),
                 circuitBreaker := snd ?entered\<rparr>"
    and w1: "w1 = w\<lparr>dispatched := (if fst ?entered = Admitted \<and> 1 \<le> retryAttempts g
                                     then snd (executeHttpRequest g tr ?cfg1 (dispatched w))
                                     else dispatched w),
                    promises := Suc (promises w)\<rparr>"
    by (auto simp: cacheableRequest_begin_def Let_def)
  from get HttpCache_get_keeps[of c1 now K] have "authCache c2 = authCache c1" by simp
  then have "authCache (HttpCache_track c2 K (promises w)) = authCache c1"
    by (simp add: HttpCache_track_def)
  from HttpCache_key_again[OF key this]
  have key': "HttpCache_key (grab_cache g1) ''GET'' url (cfg_params cfg) (cfg_headers cfg) = (K, grab_cache g1)"
    by (simp add: g1)
  have pend: "HttpCache_getPending (grab_cache g1) K = Some (promises w)"
    by (simp add: g1 HttpCache_getPending_def HttpCache_track_def jsmap_get_set_same)
  have "resolveUrl g1 (cfg_url cfg) = resolveUrl g (cfg_url cfg)"
    by (simp add: resolveUrl_def g1)
  with url have url': "resolveUrl g1 (cfg_url cfg) = Inr url" by simp
  show "cacheableRequest_begin g1 tr w1 t cfg = (Joined (inf_promise r), g1, w1)"
    using cacheableRequest_begin_joins[OF url', of "promises w" tr w1 t] key' pend
    by (simp add: r)
  show "inf_admission r = fst (CircuitBreaker_enter (circuitBreaker g) now)"
    by (simp add: r)
  show "w1\<lparr>dispatched := inf_first r\<rparr> = w\<lparr>promises := Suc (promises w)\<rparr>"
    by (simp add: r w1)
  show "inf_admission r \<noteq> Admitted \<longrightarrow> dispatched w1 = dispatched w"
    by (simp add: r w1)
  show "\<exists>c. g1 = g\<lparr>grab_cache := c,
                     circuitBreaker := snd (CircuitBreaker_enter (circuitBreaker g) now)\<rparr>"
    using g1 by blast
  show "dispatched w1 = (if inf_admission r = Admitted \<and> 1 \<le> retryAttempts g
                          then snd (executeHttpRequest g tr (inf_config r) (dispatched w))
                          else dispatched w)"
    by (simp add: r w1)
qed

lemma cacheableRequests_begin_joined:
  assumes "\<And>t. cacheableRequest_begin g1 tr w1 t cfg = (Joined p, g1, w1)"
  shows "cacheableRequests_begin g1 tr w1 (map (\<lambda>t. (t, cfg)) ts)
           = (replicate (length ts) (Joined p), g1, w1)"
  by (induction ts) (simp_all add: assms)

lemma coalesced_requests_started:
  assumes "cacheableRequest_begin g tr w now cfg = (Started r, g1, w1)"
  shows "coalesced_requests g tr w now cfg ts finish
           = \<lparr>co_begun = Started r # replicate (length ts) (Joined (inf_promise r)),
              co_settles = (\<lambda>q. if q = inf_promise r
                                then Some (fst (cacheableRequest_settle g1 tr w1 finish r)) else None),
              co_grab = fst (snd (cacheableRequest_settle g1 tr w1 finish r)),
              co_world = snd (snd (cacheableRequest_settle g1 tr w1 finish r))\<rparr>"
proof -
  have rest: "cacheableRequests_begin g1 tr w1 (map (\<lambda>t. (t, cfg)) ts)
                = (replicate (length ts) (Joined (inf_promise r)), g1, w1)"
    by (rule cacheableRequests_begin_joined) (rule cacheableRequest_begin_started(1)[OF assms])
  have all: "cacheableRequests_begin g tr w ((now, cfg) # map (\<lambda>t. (t, cfg)) ts)
               = (Started r # replicate (length ts) (Joined (inf_promise r)), g1, w1)"
    by (simp add: assms rest)
  obtain result g2 w2 where settled: "cacheableRequest_settle g1 tr w1 finish r = (result, g2, w2)"
    by (cases "cacheableRequest_settle g1 tr w1 finish r")
  show ?thesis
    unfolding coalesced_requests_def all by (simp add: settled cong: if_cong)
qed

lemma executeHttpRequest_cache_fields:
  "executeHttpRequest (g\<lparr>grab_cache := c, circuitBreaker := b\<rparr>) tr cfg n
     = executeHttpRequest g tr cfg n"
proof -
  have 1: "resolveUrl (g\<lparr>grab_cache := c, circuitBreaker := b\<rparr>) (cfg_url cfg)
             = resolveUrl g (cfg_url cfg)"
    by (simp add: resolveUrl_def)
  have 2: "check_request_size (g\<lparr>grab_cache := c, circuitBreaker := b\<rparr>) (cfg_body cfg)
             = check_request_size g (cfg_body cfg)"
    by (simp add: check_request_size_def cong: option.case_cong sum.case_cong if_cong)
  have 3: "buildFetchOptions (g\<lparr>grab_cache := c, circuitBreaker := b\<rparr>) cfg
             = buildFetchOptions g cfg"
    by (simp add: buildFetchOptions_def 2 cong: option.case_cong sum.case_cong if_cong)
  have pr: "executeHttpRequest_prepare (g\<lparr>grab_cache := c, circuitBreaker := b\<rparr>) cfg
              = executeHttpRequest_prepare g cfg"
    by (simp add: executeHttpRequest_prepare_def 1 3 cong: sum.case_cong)
  have br: "buildResponse (g\<lparr>grab_cache := c, circuitBreaker := b\<rparr>) = buildResponse g"
    by (simp add: buildResponse_def fun_eq_iff cong: sum.case_cong if_cong)
  show ?thesis
    unfolding executeHttpRequest_def pr br by (rule refl)
qed

lemma retry_wait_cache_fields:
  "retry_wait (g\<lparr>grab_cache := c, circuitBreaker := b\<rparr>) attempt error = retry_wait g attempt error"
  by (simp add: retry_wait_def cong: thrown.case_cong if_cong option.case_cong)

lemma executeWithRetry_from_cache_fields:
  "executeWithRetry_from (g\<lparr>grab_cache := c, circuitBreaker := b\<rparr>) tr cfg attempt lastError w
     = executeWithRetry_from g tr cfg attempt lastError w"
proof (induction g tr cfg attempt lastError w rule: executeWithRetry_from.induct)
  case (1 g tr cfg attempt lastError w)
  show ?case
  proof (cases "attempt \<le> retryAttempts g")
    case False
    then show ?thesis
      by (subst (1 2) executeWithRetry_from.simps) simp
  next
    case True
    obtain res n where ex: "executeHttpRequest g tr cfg (dispatched w) = (res, n)"
      by (cases "executeHttpRequest g tr cfg (dispatched w)")
    show ?thesis
    proof (cases res)
      case (Inr response)
      with True ex show ?thesis
        by (subst (1 2) executeWithRetry_from.simps) (simp add: executeHttpRequest_cache_fields)
    next
      case (Inl error)
      show ?thesis
      proof (cases "attempt = retryAttempts g \<or> \<not> retryCondition g error")
        case stop: True
        with True ex Inl show ?thesis
          by (subst (1 2) executeWithRetry_from.simps) (auto simp: executeHttpRequest_cache_fields)
      next
        case False
        note ih = "1.IH"[OF True ex[symmetric] Inl False]
        from True ex Inl False ih show ?thesis
          by (subst (1 2) executeWithRetry_from.simps)
            (simp add: executeHttpRequest_cache_fields retry_wait_cache_fields)
      qed
    qed
  qed
qed

lemma executeWithRetry_from_promises:
  "executeWithRetry_from g tr cfg attempt lastError (w\<lparr>promises := k\<rparr>)
     = (fst (executeWithRetry_from g tr cfg attempt lastError w),
        (snd (executeWithRetry_from g tr cfg attempt lastError w))\<lparr>promises := k\<rparr>)"
proof (induction g tr cfg attempt lastError w rule: executeWithRetry_from.induct)
  case (1 g tr cfg attempt lastError w)
  show ?case
  proof (cases "attempt \<le> retryAttempts g")
    case False
    then show ?thesis
      by (subst (1 2 3) executeWithRetry_from.simps) simp
  next
    case True
    obtain res n where ex: "executeHttpRequest g tr cfg (dispatched w) = (res, n)"
      by (cases "executeHttpRequest g tr cfg (dispatched w)")
    show ?thesis
    proof (cases res)
      case (Inr response)
      with True ex show ?thesis
        by (subst (1 2 3) executeWithRetry_from.simps) simp
    next
      case (Inl error)
      show ?thesis
      proof (cases "attempt = retryAttempts g \<or> \<not> retryCondition g error")
        case stop: True
        with True ex Inl show ?thesis
          by (subst (1 2 3) executeWithRetry_from.simps) auto
      next
        case False
        note ih = "1.IH"[OF True ex[symmetric] Inl False]
        have eq: "w\<lparr>promises := k, dispatched := n, slept := slept w @ [retry_wait g attempt error]\<rparr>
                    = w\<lparr>dispatched := n, slept := slept w @ [retry_wait g attempt error], promises := k\<rparr>"
          by (cases w) simp
        from True ex Inl False ih show ?thesis
          by (subst (1 2 3) executeWithRetry_from.simps) (simp add: eq)
      qed
    qed
  qed
qed

lemma executeHttpRequest_response_dispatches:
  "fst (executeHttpRequest g tr cfg n) = Inr r \<Longrightarrow> executeHttpRequest g tr cfg n = (Inr r, Suc n)"
  by (auto simp: executeHttpRequest_def Let_def split: sum.splits prod.splits if_splits)

lemma executeWithRetry_first_success:
  assumes "1 \<le> retryAttempts g" and "fst (executeHttpRequest g tr cfg (dispatched w)) = Inr r"
  shows "executeWithRetry g tr cfg w = (Inr r, w\<lparr>dispatched := Suc (dispatched w)\<rparr>)"
  unfolding executeWithRetry_def
  using assms(1) executeHttpRequest_response_dispatches[OF assms(2)]
  by (subst executeWithRetry_from.simps) simp

lemma cacheableRequest_settle_world:
  "snd (snd (cacheableRequest_settle g tr w now r))
     = (case inf_admission r of
          Admitted \<Rightarrow> snd (executeWithRetry g tr (inf_config r) (w\<lparr>dispatched := inf_first r\<rparr>))
        | Rejected result \<Rightarrow> w)"
  by (simp add: cacheableRequest_settle_def split: admission.splits prod.splits sum.splits)

lemma cacheableRequest_settle_pending:
  "HttpCache_getPending (grab_cache (fst (snd (cacheableRequest_settle g tr w now r)))) (inf_key r)
     = None"
  by (simp add: cacheableRequest_settle_def HttpCache_getPending_def HttpCache_track_finally_def
      jsmap_get_delete_same split: admission.splits prod.splits sum.splits)

lemma cacheableRequest_settle_dispatched:
  assumes "cacheableRequest_begin g tr w now cfg = (Started r, g1, w1)"
  shows "dispatched (snd (snd (cacheableRequest_settle g1 tr w1 finish r)))
           = (case inf_admission r of
                Admitted \<Rightarrow> dispatched (snd (executeWithRetry g tr (inf_config r) w))
              | Rejected result \<Rightarrow> dispatched w)"
proof (cases "inf_admission r")
  case Admitted
  from cacheableRequest_begin_started(5)[OF assms] obtain c where
    g1: "g1 = g\<lparr>grab_cache := c,
                 circuitBreaker := snd (CircuitBreaker_enter (circuitBreaker g) now)\<rparr>"
    by blast
  have "snd (snd (cacheableRequest_settle g1 tr w1 finish r))
          = snd (executeWithRetry g1 tr (inf_config r) (w1\<lparr>dispatched := inf_first r\<rparr>))"
    by (simp add: cacheableRequest_settle_world Admitted)
  also have "\<dots> = snd (executeWithRetry g tr (inf_config r) (w\<lparr>promises := Suc (promises w)\<rparr>))"
    unfolding cacheableRequest_begin_started(3)[OF assms] g1 executeWithRetry_def
      executeWithRetry_from_cache_fields
    by (rule refl)
  also have "\<dots> = (snd (executeWithRetry g tr (inf_config r) w))\<lparr>promises := Suc (promises w)\<rparr>"
    unfolding executeWithRetry_def by (subst executeWithRetry_from_promises) simp
  finally show ?thesis
    by (simp add: Admitted)
next
  case (Rejected result)
  with cacheableRequest_begin_started(4)[OF assms] show ?thesis
    by (simp add: cacheableRequest_settle_world)
qed

lemma executeHttpRequest_counts:
  "n \<le> snd (executeHttpRequest g tr cfg n)"
  by (simp add: executeHttpRequest_def Let_def split: sum.splits prod.splits)

lemma executeWithRetry_from_counts:
  "dispatched w \<le> dispatched (snd (executeWithRetry_from g tr cfg attempt lastError w))"
proof (induction g tr cfg attempt lastError w rule: executeWithRetry_from.induct)
  case (1 g tr cfg attempt lastError w)
  show ?case
  proof (cases "attempt \<le> retryAttempts g")
    case False
    then show ?thesis
      by (subst executeWithRetry_from.simps) simp
  next
    case True
    obtain res n where ex: "executeHttpRequest g tr cfg (dispatched w) = (res, n)"
      by (cases "executeHttpRequest g tr cfg (dispatched w)")
    from executeHttpRequest_counts[of "dispatched w" g tr cfg] ex have le: "dispatched w \<le> n"
      by simp
    show ?thesis
    proof (cases res)
      case (Inr response)
      with True ex le show ?thesis
        by (subst executeWithRetry_from.simps) simp
    next
      case (Inl error)
      show ?thesis
      proof (cases "attempt = retryAttempts g \<or> \<not> retryCondition g error")
        case stop: True
        with True ex Inl le show ?thesis
          by (subst executeWithRetry_from.simps) auto
      next
        case False
        from "1.IH"[OF True ex[symmetric] Inl False]
        have "n \<le> dispatched (snd (executeWithRetry_from g tr cfg (Suc attempt) error
                     (w\<lparr>dispatched := n, slept := slept w @ [retry_wait g attempt error]\<rparr>)))"
          by simp
        with True ex Inl False le show ?thesis
          by (subst executeWithRetry_from.simps) simp
      qed
    qed
  qed
qed

lemma executeWithRetry_first_call:
  "(if 1 \<le> retryAttempts g then snd (executeHttpRequest g tr cfg (dispatched w)) else dispatched w)
     \<le> dispatched (snd (executeWithRetry g tr cfg w))"
proof (cases "1 \<le> retryAttempts g")
  case False
  then show ?thesis
    unfolding executeWithRetry_def by (subst executeWithRetry_from.simps) simp
next
  case True
  obtain res n where ex: "executeHttpRequest g tr cfg (dispatched w) = (res, n)"
    by (cases "executeHttpRequest g tr cfg (dispatched w)")
  show ?thesis
  proof (cases res)
    case (Inr response)
    with True ex show ?thesis
      unfolding executeWithRetry_def by (subst executeWithRetry_from.simps) simp
  next
    case (Inl error)
    show ?thesis
    proof (cases "1 = retryAttempts g \<or> \<not> retryCondition g error")
      case stop: True
      with True ex Inl show ?thesis
        unfolding executeWithRetry_def by (subst executeWithRetry_from.simps) auto
    next
      case False
      from executeWithRetry_from_counts[of "w\<lparr>dispatched := n, slept := slept w @ [retry_wait g 1 error]\<rparr>"
          g tr cfg "Suc 1" error]
      have "n \<le> dispatched (snd (executeWithRetry_from g tr cfg (Suc 1) error
                   (w\<lparr>dispatched := n, slept := slept w @ [retry_wait g 1 error]\<rparr>)))"
        by simp
      with True ex Inl False show ?thesis
        unfolding executeWithRetry_def by (subst executeWithRetry_from.simps) simp
    qed
  qed
qed

lemma cacheableRequest_begin_counted:
  assumes "cacheableRequest_begin g tr w now cfg = (Started r, g1, w1)"
  shows "dispatched w1 \<le> dispatched (snd (snd (cacheableRequest_settle g1 tr w1 finish r)))"
proof (cases "inf_admission r")
  case Admitted
  with cacheableRequest_begin_started(6)[OF assms] cacheableRequest_settle_dispatched[OF assms, of finish]
    executeWithRetry_first_call[of g tr "inf_config r" w]
  show ?thesis by simp
next
  case (Rejected result)
  then show ?thesis
    by (simp add: cacheableRequest_settle_world)
qed

lemma example_begin:
  "fst (cacheableRequest_begin example_grab answering_transport example_world 0 example_config)
     = Started example_started"
  by code_simp

lemma example_inflight:
  "resolveUrl (fst (snd (cacheableRequest_begin example_grab answering_transport example_world 0 example_config)))
       (cfg_url example_config) = Inr ''https://api.example.com/b''
   \<and> HttpCache_getPending
         (grab_cache (fst (snd (cacheableRequest_begin example_grab answering_transport example_world 0
                                  example_config))))
         (fst (HttpCache_key
                 (grab_cache (fst (snd (cacheableRequest_begin example_grab answering_transport
                                          example_world 0 example_config))))
                 ''GET'' ''https://api.example.com/b'' (cfg_params example_config)
                 (cfg_headers example_config)))
       = Some 0"
  by code_simp

lemma example_answer:
  "inf_admission example_started = Admitted
   \<and> 1 \<le> retryAttempts example_grab
   \<and> fst (executeHttpRequest example_grab answering_transport (inf_config example_started)
            (dispatched example_world))
       = Inr \<lparr>res_ok = True, res_status = 200, res_statusText = [],
               res_headers = [(''etag'', ''v1'')], res_url = ''https://api.example.com/b'',
               res_data = Some ''{}'', res_etag = Some ''v1'', res_fromCache = False\<rparr>"
  by code_simp

text \<open>
  Claim C3 as stated fails in its conclusion that \<open>k\<close> concurrent requests with the same
  fingerprint dispatch the transport exactly once. Three concurrent requests with one
  descriptor over a transport on which every call fails: the second and the third return
  the promise of the first, the retry loop of the first calls the transport three times
  (\<open>retryAttempts = 3\<close>, and a \<open>NetworkError\<close> is retried), and all three callers receive the
  same \<open>NetworkError\<close>. Three such requests on a client whose breaker is open: the breaker
  rejects the first call without invoking the thunk, the transport is not called, and all
  three callers receive the same error.
\<close>

theorem coalesced_requests_not_once:
  "co_begun (coalesced_requests example_grab failing_transport example_world 0 example_config [1, 2] 5000)
     = [Started example_started, Joined 0, Joined 0]
   \<and> map (caller_outcome
            (co_settles (coalesced_requests example_grab failing_transport example_world 0
                           example_config [1, 2] 5000)))
         (co_begun (coalesced_requests example_grab failing_transport example_world 0
                      example_config [1, 2] 5000))
       = [Some (Inl (NetworkError ''Failed to fetch'' ''https://api.example.com/b'')),
          Some (Inl (NetworkError ''Failed to fetch'' ''https://api.example.com/b'')),
          Some (Inl (NetworkError ''Failed to fetch'' ''https://api.example.com/b''))]
   \<and> dispatched (co_world (coalesced_requests example_grab failing_transport example_world 0
                              example_config [1, 2] 5000)) = 3
   \<and> map (caller_outcome
            (co_settles (coalesced_requests open_grab answering_transport example_world 10
                           example_config [11, 12] 20)))
         (co_begun (coalesced_requests open_grab answering_transport example_world 10
                      example_config [11, 12] 20))
       = [Some (Inl (JsError ''TypeError'' ''this.fallback is not a function'')),
          Some (Inl (JsError ''TypeError'' ''this.fallback is not a function'')),
          Some (Inl (JsError ''TypeError'' ''this.fallback is not a function''))]
   \<and> dispatched (co_world (coalesced_requests open_grab answering_transport example_world 10
                              example_config [11, 12] 20)) = 0"
  by code_simp

text \<open>
  Claim C3, amended. (1) A call that finds an in-flight entry \<open>q\<close> under its fingerprint
  returns that promise, so the caller observes whatever \<open>q\<close> settles to; the breaker and the
  counters of transport calls, sleeps and promises are as before the call. (2) If the
  first of \<open>k\<close> concurrent requests with one descriptor starts a request, each of the others
  returns the promise of the first; the promise settles, and every caller observes its
  settlement, the same response or the same error. Settlement, client and world are those
  of the first request alone, so the joining calls add no transport call, no sleep and no
  breaker event, and once the promise has settled no in-flight entry is left under the
  fingerprint. The transport is called as often as the retry loop of the first request
  calls it when the breaker invoked its thunk, the call made in the first piece being one
  of these calls, and not at all when the breaker rejected the call. (3) It is called
  exactly once when the breaker invoked the thunk and the transport answers the first
  dispatch with a response that \<open>buildResponse\<close> accepts.
\<close>

theorem cacheableRequest_coalesced:
  "(resolveUrl g (cfg_url cfg) = Inr url
      \<and> HttpCache_getPending (grab_cache g)
           (fst (HttpCache_key (grab_cache g) ''GET'' url (cfg_params cfg) (cfg_headers cfg))) = Some q
    \<longrightarrow> fst (cacheableRequest_begin g tr w now cfg) = Joined q
        \<and> caller_outcome settles (fst (cacheableRequest_begin g tr w now cfg)) = settles q
        \<and> circuitBreaker (fst (snd (cacheableRequest_begin g tr w now cfg))) = circuitBreaker g
        \<and> snd (snd (cacheableRequest_begin g tr w now cfg)) = w)
   \<and> (fst (cacheableRequest_begin g tr w now cfg) = Started r
    \<longrightarrow> co_begun (coalesced_requests g tr w now cfg ts finish)
          = Started r # replicate (length ts) (Joined (inf_promise r))
        \<and> (\<exists>result. co_settles (coalesced_requests g tr w now cfg ts finish) (inf_promise r)
                       = Some result)
        \<and> (\<forall>b \<in> set (co_begun (coalesced_requests g tr w now cfg ts finish)).
              caller_outcome (co_settles (coalesced_requests g tr w now cfg ts finish)) b
                = co_settles (coalesced_requests g tr w now cfg ts finish) (inf_promise r))
        \<and> co_settles (coalesced_requests g tr w now cfg ts finish)
            = co_settles (coalesced_requests g tr w now cfg [] finish)
        \<and> co_grab (coalesced_requests g tr w now cfg ts finish)
            = co_grab (coalesced_requests g tr w now cfg [] finish)
        \<and> co_world (coalesced_requests g tr w now cfg ts finish)
            = co_world (coalesced_requests g tr w now cfg [] finish)
        \<and> HttpCache_getPending (grab_cache (co_grab (coalesced_requests g tr w now cfg ts finish)))
            (inf_key r) = None
        \<and> dispatched (co_world (coalesced_requests g tr w now cfg ts finish))
            = (case inf_admission r of
                 Admitted \<Rightarrow> dispatched (snd (executeWithRetry g tr (inf_config r) w))
               | Rejected result \<Rightarrow> dispatched w)
        \<and> dispatched (snd (snd (cacheableRequest_begin g tr w now cfg)))
            \<le> dispatched (co_world (coalesced_requests g tr w now cfg ts finish)))
   \<and> (fst (cacheableRequest_begin g tr w now cfg) = Started r
        \<and> inf_admission r = Admitted \<and> 1 \<le> retryAttempts g
        \<and> fst (executeHttpRequest g tr (inf_config r) (dispatched w)) = Inr response
    \<longrightarrow> dispatched (co_world (coalesced_requests g tr w now cfg ts finish)) = dispatched w + 1)"
proof -
  have one: "resolveUrl g (cfg_url cfg) = Inr url
      \<and> HttpCache_getPending (grab_cache g)
           (fst (HttpCache_key (grab_cache g) ''GET'' url (cfg_params cfg) (cfg_headers cfg))) = Some q
    \<longrightarrow> fst (cacheableRequest_begin g tr w now cfg) = Joined q
        \<and> caller_outcome settles (fst (cacheableRequest_begin g tr w now cfg)) = settles q
        \<and> circuitBreaker (fst (snd (cacheableRequest_begin g tr w now cfg))) = circuitBreaker g
        \<and> snd (snd (cacheableRequest_begin g tr w now cfg)) = w"
    by (auto simp: cacheableRequest_begin_joins caller_outcome_def)
  have two: "fst (cacheableRequest_begin g tr w now cfg) = Started r
    \<longrightarrow> co_begun (coalesced_requests g tr w now cfg ts finish)
          = Started r # replicate (length ts) (Joined (inf_promise r))
        \<and> (\<exists>result. co_settles (coalesced_requests g tr w now cfg ts finish) (inf_promise r)
                       = Some result)
        \<and> (\<forall>b \<in> set (co_begun (coalesced_requests g tr w now cfg ts finish)).
              caller_outcome (co_settles (coalesced_requests g tr w now cfg ts finish)) b
                = co_settles (coalesced_requests g tr w now cfg ts finish) (inf_promise r))
        \<and> co_settles (coalesced_requests g tr w now cfg ts finish)
            = co_settles (coalesced_requests g tr w now cfg [] finish)
        \<and> co_grab (coalesced_requests g tr w now cfg ts finish)
            = co_grab (coalesced_requests g tr w now cfg [] finish)
        \<and> co_world (coalesced_requests g tr w now cfg ts finish)
            = co_world (coalesced_requests g tr w now cfg [] finish)
        \<and> HttpCache_getPending (grab_cache (co_grab (coalesced_requests g tr w now cfg ts finish)))
            (inf_key r) = None
        \<and> dispatched (co_world (coalesced_requests g tr w now cfg ts finish))
            = (case inf_admission r of
                 Admitted \<Rightarrow> dispatched (snd (executeWithRetry g tr (inf_config r) w))
               | Rejected result \<Rightarrow> dispatched w)
        \<and> dispatched (snd (snd (cacheableRequest_begin g tr w now cfg)))
            \<le> dispatched (co_world (coalesced_requests g tr w now cfg ts finish))"
  proof
    assume st: "fst (cacheableRequest_begin g tr w now cfg) = Started r"
    obtain g1 w1 where b: "cacheableRequest_begin g tr w now cfg = (Started r, g1, w1)"
      using st by (cases "cacheableRequest_begin g tr w now cfg") auto
    note many = coalesced_requests_started[OF b, of ts finish]
    note alone = coalesced_requests_started[OF b, of "[]" finish]
    have c1: "co_begun (coalesced_requests g tr w now cfg ts finish)
                = Started r # replicate (length ts) (Joined (inf_promise r))"
      by (simp add: many)
    have c2: "\<exists>result. co_settles (coalesced_requests g tr w now cfg ts finish) (inf_promise r)
                         = Some result"
      by (simp add: many)
    have c3: "\<forall>b \<in> set (co_begun (coalesced_requests g tr w now cfg ts finish)).
                caller_outcome (co_settles (coalesced_requests g tr w now cfg ts finish)) b
                  = co_settles (coalesced_requests g tr w now cfg ts finish) (inf_promise r)"
      by (auto simp: many caller_outcome_def)
    have c4: "co_settles (coalesced_requests g tr w now cfg ts finish)
                = co_settles (coalesced_requests g tr w now cfg [] finish)"
      by (simp add: many alone)
    have c5: "co_grab (coalesced_requests g tr w now cfg ts finish)
                = co_grab (coalesced_requests g tr w now cfg [] finish)"
      by (simp add: many alone)
    have c6: "co_world (coalesced_requests g tr w now cfg ts finish)
                = co_world (coalesced_requests g tr w now cfg [] finish)"
      by (simp add: many alone)
    have c7: "HttpCache_getPending (grab_cache (co_grab (coalesced_requests g tr w now cfg ts finish)))
                (inf_key r) = None"
      by (simp add: many cacheableRequest_settle_pending)
    have c8: "dispatched (co_world (coalesced_requests g tr w now cfg ts finish))
                = (case inf_admission r of
                     Admitted \<Rightarrow> dispatched (snd (executeWithRetry g tr (inf_config r) w))
                   | Rejected result \<Rightarrow> dispatched w)"
      using cacheableRequest_settle_dispatched[OF b, of finish] by (simp add: many)
    have c9: "dispatched (snd (snd (cacheableRequest_begin g tr w now cfg)))
                \<le> dispatched (co_world (coalesced_requests g tr w now cfg ts finish))"
      using cacheableRequest_begin_counted[OF b, of finish] by (simp add: many b)
    from c1 c2 c3 c4 c5 c6 c7 c8 c9
    show "co_begun (coalesced_requests g tr w now cfg ts finish)
          = Started r # replicate (length ts) (Joined (inf_promise r))
        \<and> (\<exists>result. co_settles (coalesced_requests g tr w now cfg ts finish) (inf_promise r)
                       = Some result)
        \<and> (\<forall>b \<in> set (co_begun (coalesced_requests g tr w now cfg ts finish)).
              caller_outcome (co_settles (coalesced_requests g tr w now cfg ts finish)) b
                = co_settles (coalesced_requests g tr w now cfg ts finish) (inf_promise r))
        \<and> co_settles (coalesced_requests g tr w now cfg ts finish)
            = co_settles (coalesced_requests g tr w now cfg [] finish)
        \<and> co_grab (coalesced_requests g tr w now cfg ts finish)
            = co_grab (coalesced_requests g tr w now cfg [] finish)
        \<and> co_world (coalesced_requests g tr w now cfg ts finish)
            = co_world (coalesced_requests g tr w now cfg [] finish)
        \<and> HttpCache_getPending (grab_cache (co_grab (coalesced_requests g tr w now cfg ts finish)))
            (inf_key r) = None
        \<and> dispatched (co_world (coalesced_requests g tr w now cfg ts finish))
            = (case inf_admission r of
                 Admitted \<Rightarrow> dispatched (snd (executeWithRetry g tr (inf_config r) w))
               | Rejected result \<Rightarrow> dispatched w)
        \<and> dispatched (snd (snd (cacheableRequest_begin g tr w now cfg)))
            \<le> dispatched (co_world (coalesced_requests g tr w now cfg ts finish))"
      by (intro conjI)
  qed
  have three: "fst (cacheableRequest_begin g tr w now cfg) = Started r
        \<and> inf_admission r = Admitted \<and> 1 \<le> retryAttempts g
        \<and> fst (executeHttpRequest g tr (inf_config r) (dispatched w)) = Inr response
    \<longrightarrow> dispatched (co_world (coalesced_requests g tr w now cfg ts finish)) = dispatched w + 1"
  proof (intro impI, elim conjE)
    assume st: "fst (cacheableRequest_begin g tr w now cfg) = Started r"
      and ad: "inf_admission r = Admitted" and at: "1 \<le> retryAttempts g"
      and ok: "fst (executeHttpRequest g tr (inf_config r) (dispatched w)) = Inr response"
    obtain g1 w1 where b: "cacheableRequest_begin g tr w now cfg = (Started r, g1, w1)"
      using st by (cases "cacheableRequest_begin g tr w now cfg") auto
    from cacheableRequest_settle_dispatched[OF b, of finish] ad
      executeWithRetry_first_success[OF at ok]
    show "dispatched (co_world (coalesced_requests g tr w now cfg ts finish)) = dispatched w + 1"
      by (simp add: coalesced_requests_started[OF b, of ts finish])
  qed
  from one two three show ?thesis by (intro conjI)
qed

theorem cacheableRequest_coalesced_witness:
  "(fst (cacheableRequest_begin example_grab answering_transport example_world 0 example_config) = Started example_started
    \<and> co_begun (coalesced_requests example_grab answering_transport example_world 0 example_config [1, 2] 50) = [Started example_started, Joined 0, Joined 0]
    \<and> HttpCache_getPending (grab_cache (co_grab (coalesced_requests example_grab answering_transport example_world 0 example_config [1, 2] 50))) (inf_key example_started) = None
    \<and> dispatched (co_world (coalesced_requests example_grab answering_transport example_world 0 example_config [1, 2] 50)) = 1)
   \<and> (resolveUrl (fst (snd (cacheableRequest_begin example_grab answering_transport example_world 0 example_config))) (cfg_url example_config) = Inr ''https://api.example.com/b''
    \<and> HttpCache_getPending
         (grab_cache (fst (snd (cacheableRequest_begin example_grab answering_transport example_world 0 example_config))))
         (fst (HttpCache_key
                 (grab_cache (fst (snd (cacheableRequest_begin example_grab answering_transport example_world 0 example_config))))
                 ''GET'' ''https://api.example.com/b'' (cfg_params example_config)
                 (cfg_headers example_config)))
       = Some 0
    \<and> fst (cacheableRequest_begin (fst (snd (cacheableRequest_begin example_grab answering_transport example_world 0 example_config))) answering_transport (snd (snd (cacheableRequest_begin example_grab answering_transport example_world 0 example_config)))
             5 example_config) = Joined 0
    \<and> snd (snd (cacheableRequest_begin (fst (snd (cacheableRequest_begin example_grab answering_transport example_world 0 example_config))) answering_transport (snd (snd (cacheableRequest_begin example_grab answering_transport example_world 0 example_config)))
             5 example_config)) = snd (snd (cacheableRequest_begin example_grab answering_transport example_world 0 example_config)))
   \<and> (inf_admission example_started = Admitted
    \<and> 1 \<le> retryAttempts example_grab
    \<and> fst (executeHttpRequest example_grab answering_transport (inf_config example_started)
             (dispatched example_world))
        = Inr \<lparr>res_ok = True, res_status = 200, res_statusText = [],
               res_headers = [(''etag'', ''v1'')], res_url = ''https://api.example.com/b'',
               res_data = Some ''{}'', res_etag = Some ''v1'', res_fromCache = False\<rparr>)"
proof -
  note first = cacheableRequest_coalesced[where g = example_grab and tr = answering_transport
      and w = example_world and now = 0 and cfg = example_config and r = example_started
      and ts = "[1, 2]" and finish = 50
      and response = "\<lparr>res_ok = True, res_status = 200, res_statusText = [],
               res_headers = [(''etag'', ''v1'')], res_url = ''https://api.example.com/b'',
               res_data = Some ''{}'', res_etag = Some ''v1'', res_fromCache = False\<rparr>"]
  note later = cacheableRequest_coalesced[where
      g = "fst (snd (cacheableRequest_begin example_grab answering_transport example_world 0 example_config))"
      and tr = answering_transport
      and w = "snd (snd (cacheableRequest_begin example_grab answering_transport example_world 0 example_config))"
      and now = 5 and cfg = example_config and url = "''https://api.example.com/b''" and q = 0]
  from first have "fst (cacheableRequest_begin example_grab answering_transport example_world 0 example_config) = Started example_started
    \<longrightarrow> co_begun (coalesced_requests example_grab answering_transport example_world 0 example_config [1, 2] 50)
          = Started example_started # replicate (length [1 :: int, 2]) (Joined (inf_promise example_started))
        \<and> (\<exists>result. co_settles (coalesced_requests example_grab answering_transport example_world 0 example_config [1, 2] 50) (inf_promise example_started) = Some result)
        \<and> (\<forall>b \<in> set (co_begun (coalesced_requests example_grab answering_transport example_world 0 example_config [1, 2] 50)).
              caller_outcome (co_settles (coalesced_requests example_grab answering_transport example_world 0 example_config [1, 2] 50)) b = co_settles (coalesced_requests example_grab answering_transport example_world 0 example_config [1, 2] 50) (inf_promise example_started))
        \<and> co_settles (coalesced_requests example_grab answering_transport example_world 0 example_config [1, 2] 50)
            = co_settles (coalesced_requests example_grab answering_transport example_world 0 example_config [] 50)
        \<and> co_grab (coalesced_requests example_grab answering_transport example_world 0 example_config [1, 2] 50)
            = co_grab (coalesced_requests example_grab answering_transport example_world 0 example_config [] 50)
        \<and> co_world (coalesced_requests example_grab answering_transport example_world 0 example_config [1, 2] 50)
            = co_world (coalesced_requests example_grab answering_transport example_world 0 example_config [] 50)
        \<and> HttpCache_getPending (grab_cache (co_grab (coalesced_requests example_grab answering_transport example_world 0 example_config [1, 2] 50))) (inf_key example_started) = None
        \<and> dispatched (co_world (coalesced_requests example_grab answering_transport example_world 0 example_config [1, 2] 50))
            = (case inf_admission example_started of
                 Admitted \<Rightarrow> dispatched (snd (executeWithRetry example_grab answering_transport
                                                 (inf_config example_started) example_world))
               | Rejected result \<Rightarrow> dispatched example_world)
        \<and> dispatched (snd (snd (cacheableRequest_begin example_grab answering_transport example_world 0 example_config))) \<le> dispatched (co_world (coalesced_requests example_grab answering_transport example_world 0 example_config [1, 2] 50))"
    by (rule conjunct1[OF conjunct2])
  from this example_begin
  have started: "co_begun (coalesced_requests example_grab answering_transport example_world 0 example_config [1, 2] 50)
          = Started example_started # replicate (length [1 :: int, 2]) (Joined (inf_promise example_started))
        \<and> (\<exists>result. co_settles (coalesced_requests example_grab answering_transport example_world 0 example_config [1, 2] 50) (inf_promise example_started) = Some result)
        \<and> (\<forall>b \<in> set (co_begun (coalesced_requests example_grab answering_transport example_world 0 example_config [1, 2] 50)).
              caller_outcome (co_settles (coalesced_requests example_grab answering_transport example_world 0 example_config [1, 2] 50)) b = co_settles (coalesced_requests example_grab answering_transport example_world 0 example_config [1, 2] 50) (inf_promise example_started))
        \<and> co_settles (coalesced_requests example_grab answering_transport example_world 0 example_config [1, 2] 50)
            = co_settles (coalesced_requests example_grab answering_transport example_world 0 example_config [] 50)
        \<and> co_grab (coalesced_requests example_grab answering_transport example_world 0 example_config [1, 2] 50)
            = co_grab (coalesced_requests example_grab answering_transport example_world 0 example_config [] 50)
        \<and> co_world (coalesced_requests example_grab answering_transport example_world 0 example_config [1, 2] 50)
            = co_world (coalesced_requests example_grab answering_transport example_world 0 example_config [] 50)
        \<and> HttpCache_getPending (grab_cache (co_grab (coalesced_requests example_grab answering_transport example_world 0 example_config [1, 2] 50))) (inf_key example_started) = None
        \<and> dispatched (co_world (coalesced_requests example_grab answering_transport example_world 0 example_config [1, 2] 50))
            = (case inf_admission example_started of
                 Admitted \<Rightarrow> dispatched (snd (executeWithRetry example_grab answering_transport
                                                 (inf_config example_started) example_world))
               | Rejected result \<Rightarrow> dispatched example_world)
        \<and> dispatched (snd (snd (cacheableRequest_begin example_grab answering_transport example_world 0 example_config))) \<le> dispatched (co_world (coalesced_requests example_grab answering_transport example_world 0 example_config [1, 2] 50))"
    by (rule mp)
  from started have a1: "co_begun (coalesced_requests example_grab answering_transport example_world 0 example_config [1, 2] 50)
          = Started example_started # replicate (length [1 :: int, 2]) (Joined (inf_promise example_started))"
    by (rule conjunct1)
  have a1': "co_begun (coalesced_requests example_grab answering_transport example_world 0 example_config [1, 2] 50) = [Started example_started, Joined 0, Joined 0]"
    unfolding a1 by (simp add: example_started_def)
  from started have a2: "HttpCache_getPending (grab_cache (co_grab (coalesced_requests example_grab answering_transport example_world 0 example_config [1, 2] 50))) (inf_key example_started) = None"
    by blast
  from first have "fst (cacheableRequest_begin example_grab answering_transport example_world 0 example_config) = Started example_started
        \<and> inf_admission example_started = Admitted \<and> 1 \<le> retryAttempts example_grab
        \<and> fst (executeHttpRequest example_grab answering_transport (inf_config example_started)
                 (dispatched example_world))
            = Inr \<lparr>res_ok = True, res_status = 200, res_statusText = [],
               res_headers = [(''etag'', ''v1'')], res_url = ''https://api.example.com/b'',
               res_data = Some ''{}'', res_etag = Some ''v1'', res_fromCache = False\<rparr>
    \<longrightarrow> dispatched (co_world (coalesced_requests example_grab answering_transport example_world 0 example_config [1, 2] 50)) = dispatched example_world + 1"
    by (rule conjunct2[OF conjunct2])
  moreover from example_begin example_answer
  have "fst (cacheableRequest_begin example_grab answering_transport example_world 0 example_config) = Started example_started
        \<and> inf_admission example_started = Admitted \<and> 1 \<le> retryAttempts example_grab
        \<and> fst (executeHttpRequest example_grab answering_transport (inf_config example_started)
                 (dispatched example_world))
            = Inr \<lparr>res_ok = True, res_status = 200, res_statusText = [],
               res_headers = [(''etag'', ''v1'')], res_url = ''https://api.example.com/b'',
               res_data = Some ''{}'', res_etag = Some ''v1'', res_fromCache = False\<rparr>"
    by (rule conjI)
  ultimately have "dispatched (co_world (coalesced_requests example_grab answering_transport example_world 0 example_config [1, 2] 50)) = dispatched example_world + 1"
    by (rule mp)
  then have a3: "dispatched (co_world (coalesced_requests example_grab answering_transport example_world 0 example_config [1, 2] 50)) = 1"
    by (simp add: example_world_def)
  from later have "resolveUrl (fst (snd (cacheableRequest_begin example_grab answering_transport example_world 0 example_config))) (cfg_url example_config) = Inr ''https://api.example.com/b''
      \<and> HttpCache_getPending
           (grab_cache (fst (snd (cacheableRequest_begin example_grab answering_transport example_world 0 example_config))))
           (fst (HttpCache_key
                 (grab_cache (fst (snd (cacheableRequest_begin example_grab answering_transport example_world 0 example_config))))
                 ''GET'' ''https://api.example.com/b'' (cfg_params example_config)
                 (cfg_headers example_config)))
         = Some 0
      \<longrightarrow> fst (cacheableRequest_begin (fst (snd (cacheableRequest_begin example_grab answering_transport example_world 0 example_config))) answering_transport (snd (snd (cacheableRequest_begin example_grab answering_transport example_world 0 example_config)))
                 5 example_config) = Joined 0
        \<and> caller_outcome settles (fst (cacheableRequest_begin (fst (snd (cacheableRequest_begin example_grab answering_transport example_world 0 example_config))) answering_transport
                 (snd (snd (cacheableRequest_begin example_grab answering_transport example_world 0 example_config))) 5 example_config)) = settles 0
        \<and> circuitBreaker (fst (snd (cacheableRequest_begin (fst (snd (cacheableRequest_begin example_grab answering_transport example_world 0 example_config))) answering_transport
                 (snd (snd (cacheableRequest_begin example_grab answering_transport example_world 0 example_config))) 5 example_config)))
            = circuitBreaker (fst (snd (cacheableRequest_begin example_grab answering_transport example_world 0 example_config)))
        \<and> snd (snd (cacheableRequest_begin (fst (snd (cacheableRequest_begin example_grab answering_transport example_world 0 example_config))) answering_transport
                 (snd (snd (cacheableRequest_begin example_grab answering_transport example_world 0 example_config))) 5 example_config))
            = snd (snd (cacheableRequest_begin example_grab answering_transport example_world 0 example_config))"
    by (rule conjunct1)
  from this example_inflight
  have joined: "fst (cacheableRequest_begin (fst (snd (cacheableRequest_begin example_grab answering_transport example_world 0 example_config))) answering_transport (snd (snd (cacheableRequest_begin example_grab answering_transport example_world 0 example_config)))
                 5 example_config) = Joined 0
        \<and> caller_outcome settles (fst (cacheableRequest_begin (fst (snd (cacheableRequest_begin example_grab answering_transport example_world 0 example_config))) answering_transport
                 (snd (snd (cacheableRequest_begin example_grab answering_transport example_world 0 example_config))) 5 example_config)) = settles 0
        \<and> circuitBreaker (fst (snd (cacheableRequest_begin (fst (snd (cacheableRequest_begin example_grab answering_transport example_world 0 example_config))) answering_transport
                 (snd (snd (cacheableRequest_begin example_grab answering_transport example_world 0 example_config))) 5 example_config)))
            = circuitBreaker (fst (snd (cacheableRequest_begin example_grab answering_transport example_world 0 example_config)))
        \<and> snd (snd (cacheableRequest_begin (fst (snd (cacheableRequest_begin example_grab answering_transport example_world 0 example_config))) answering_transport
                 (snd (snd (cacheableRequest_begin example_grab answering_transport example_world 0 example_config))) 5 example_config))
            = snd (snd (cacheableRequest_begin example_grab answering_transport example_world 0 example_config))"
    by (rule mp)
  from joined have b1: "fst (cacheableRequest_begin (fst (snd (cacheableRequest_begin example_grab answering_transport example_world 0 example_config))) answering_transport (snd (snd (cacheableRequest_begin example_grab answering_transport example_world 0 example_config)))
                 5 example_config) = Joined 0"
    by (rule conjunct1)
  from joined have b2: "snd (snd (cacheableRequest_begin (fst (snd (cacheableRequest_begin example_grab answering_transport example_world 0 example_config))) answering_transport
                 (snd (snd (cacheableRequest_begin example_grab answering_transport example_world 0 example_config))) 5 example_config))
            = snd (snd (cacheableRequest_begin example_grab answering_transport example_world 0 example_config))"
    by (rule conjunct2[OF conjunct2[OF conjunct2]])
  from example_begin a1' a2 a3 example_inflight b1 b2 example_answer show ?thesis
    by blast
qed

end
